theory Spec2Isabelle
  imports Complex_Main "HOL-Library.AList" "HOL-Library.Sublist"
begin

section \<open>Python values, exceptions and effects\<close>

text \<open>
  The request handlers of \<^verbatim>\<open>backend/app.py\<close> work on JSON data: the parsed request body
  (\<^verbatim>\<open>request.json\<close>) and the dictionaries they build for \<^verbatim>\<open>jsonify\<close>. A dictionary is an
  association list in insertion order, read with \<open>map_of\<close> and written with
  \<open>AList.update\<close> (an existing key keeps its place, a new key goes to the end, as in
  Python). Floats are modelled by their real value; NaN and the infinities are outside
  the model.
\<close>

datatype pyval =
    PNone
  | PBool bool
  | PInt int
  | PFloat real
  | PStr string
  | PList "pyval list"
  | PDict "(string \<times> pyval) list"

type_synonym pydict = "(string \<times> pyval) list"

text \<open>
  Every exception the handlers can see is a subclass of \<^verbatim>\<open>Exception\<close>; the handlers only
  ever read \<^verbatim>\<open>str(e)\<close>, so an exception is modelled by that text.
\<close>

datatype exn = Exception (str: string)

fun type_name :: "pyval \<Rightarrow> string" where
  "type_name PNone = ''NoneType''"
| "type_name (PBool _) = ''bool''"
| "type_name (PInt _) = ''int''"
| "type_name (PFloat _) = ''float''"
| "type_name (PStr _) = ''str''"
| "type_name (PList _) = ''list''"
| "type_name (PDict _) = ''dict''"

definition quoted :: "string \<Rightarrow> string" where
  "quoted s = CHR 0x27 # s @ [CHR 0x27]"

text \<open>Python truthiness, as \<^verbatim>\<open>if x:\<close> and \<^verbatim>\<open>not x\<close> read it.\<close>

fun truthy :: "pyval \<Rightarrow> bool" where
  "truthy PNone = False"
| "truthy (PBool b) = b"
| "truthy (PInt i) = (i \<noteq> 0)"
| "truthy (PFloat x) = (x \<noteq> 0)"
| "truthy (PStr s) = (s \<noteq> [])"
| "truthy (PList xs) = (xs \<noteq> [])"
| "truthy (PDict d) = (d \<noteq> [])"

text \<open>\<^verbatim>\<open>obj.get(key, default)\<close>: only a dict has the method.\<close>

definition py_get :: "pyval \<Rightarrow> string \<Rightarrow> pyval \<Rightarrow> exn + pyval" where
  "py_get obj key dflt =
     (case obj of
        PDict d \<Rightarrow> Inr (case map_of d key of Some v \<Rightarrow> v | None \<Rightarrow> dflt)
      | _ \<Rightarrow> Inl (Exception (quoted (type_name obj) @ '' object has no attribute '' @ quoted ''get'')))"

text \<open>\<^verbatim>\<open>obj[key]\<close> with a string key: KeyError on a dict without the key, TypeError elsewhere.\<close>

definition py_getitem :: "pyval \<Rightarrow> string \<Rightarrow> exn + pyval" where
  "py_getitem obj key =
     (case obj of
        PDict d \<Rightarrow> (case map_of d key of Some v \<Rightarrow> Inr v | None \<Rightarrow> Inl (Exception (quoted key)))
      | PList _ \<Rightarrow> Inl (Exception ''list indices must be integers or slices, not str'')
      | PStr _ \<Rightarrow> Inl (Exception (''string indices must be integers, not '' @ quoted ''str''))
      | _ \<Rightarrow> Inl (Exception (quoted (type_name obj) @ '' object is not subscriptable'')))"

text \<open>
  \<^verbatim>\<open>xs[i]\<close> on a list: an int index (a bool is an int), negative indices count from the
  end, IndexError out of range, TypeError for any other index.
\<close>

definition py_list_at :: "'a list \<Rightarrow> int \<Rightarrow> exn + 'a" where
  "py_list_at xs k =
     (let n = int (length xs); j = (if k < 0 then n + k else k)
      in if 0 \<le> j \<and> j < n then Inr (xs ! nat j)
         else Inl (Exception ''list index out of range''))"

definition py_list_index :: "'a list \<Rightarrow> pyval \<Rightarrow> exn + 'a" where
  "py_list_index xs i =
     (case i of
        PInt k \<Rightarrow> py_list_at xs k
      | PBool b \<Rightarrow> py_list_at xs (if b then 1 else 0)
      | _ \<Rightarrow> Inl (Exception (''list indices must be integers or slices, not '' @ type_name i)))"

text \<open>
  \<^verbatim>\<open>round(x, n)\<close> with \<open>n \<ge> 0\<close>: an int (or bool) comes back as an int unchanged, a float
  is rounded by the interpreter (\<open>rnd\<close>, a parameter: the decimal rounding of a binary
  float is not modelled), anything else raises TypeError.
\<close>

definition py_round :: "(real \<Rightarrow> nat \<Rightarrow> real) \<Rightarrow> pyval \<Rightarrow> nat \<Rightarrow> exn + pyval" where
  "py_round rnd x n =
     (case x of
        PFloat r \<Rightarrow> Inr (PFloat (rnd r n))
      | PInt i \<Rightarrow> Inr (PInt i)
      | PBool b \<Rightarrow> Inr (PInt (if b then 1 else 0))
      | _ \<Rightarrow> Inl (Exception (''type '' @ type_name x @ '' doesn'' @ [CHR 0x27] @ ''t define __round__ method'')))"

text \<open>\<^verbatim>\<open>len(x)\<close>.\<close>

definition py_len :: "pyval \<Rightarrow> exn + int" where
  "py_len x =
     (case x of
        PStr s \<Rightarrow> Inr (int (length s))
      | PList xs \<Rightarrow> Inr (int (length xs))
      | PDict d \<Rightarrow> Inr (int (length d))
      | _ \<Rightarrow> Inl (Exception (''object of type '' @ quoted (type_name x) @ '' has no len()'')))"

text \<open>\<^verbatim>\<open>int(x)\<close> of a float truncates towards zero.\<close>

definition py_int :: "real \<Rightarrow> int" where
  "py_int x = (if 0 \<le> x then \<lfloor>x\<rfloor> else \<lceil>x\<rceil>)"

subsection \<open>Calls to collaborators, with a trace\<close>

text \<open>
  The modules \<^verbatim>\<open>constraints\<close>, \<^verbatim>\<open>generator\<close>, \<^verbatim>\<open>evaluator\<close>, \<^verbatim>\<open>simple_ml\<close>, \<^verbatim>\<open>data_loader\<close> and
  the database layer are imported by \<^verbatim>\<open>app.py\<close>. Each call of one of their functions
  either raises or returns, and is recorded in a trace, so that "this function was not
  called" is a statement about the trace.
\<close>

datatype call =
    Validate | Process | CalculateFeasibility
  | Generate | Evaluate | RankDesigns
  | Predict | GetFeatureImportance | MLRankDesigns | RecommendDesign
  | SaveProject
  | AutoLoadTrainingData
  | PrepareCost | PreparePreference | PrepareHistorical
  | SyntheticCost | SyntheticPreference | SyntheticHistorical
  | TrainCost | TrainRanker | LearnFromHistory

type_synonym 'a io = "call list \<times> (exn + 'a)"

definition io_return :: "'a \<Rightarrow> 'a io" where
  "io_return x = ([], Inr x)"

definition io_lift :: "exn + 'a \<Rightarrow> 'a io" where
  "io_lift r = ([], r)"

definition invoke :: "call \<Rightarrow> exn + 'a \<Rightarrow> 'a io" where
  "invoke c r = ([c], r)"

definition io_bind :: "'a io \<Rightarrow> ('a \<Rightarrow> 'b io) \<Rightarrow> 'b io" where
  "io_bind m f =
     (case m of
        (t, Inl e) \<Rightarrow> (t, Inl e)
      | (t, Inr x) \<Rightarrow> (case f x of (t', r) \<Rightarrow> (t @ t', r)))"

text \<open>\<^verbatim>\<open>try: m  except: h\<close> where the handler does not read the exception.\<close>

definition io_try :: "'a io \<Rightarrow> 'a io \<Rightarrow> 'a io" where
  "io_try m h =
     (case m of
        (t, Inl e) \<Rightarrow> (case h of (t', r) \<Rightarrow> (t @ t', r))
      | (t, Inr x) \<Rightarrow> (t, Inr x))"

record outcome =
  calls :: "call list"
  status :: nat
  body :: pydict

text \<open>
  The outermost \<^verbatim>\<open>try ... except Exception as e: return jsonify({'error': str(e)}), 500\<close>
  of a handler.
\<close>

definition respond :: "(nat \<times> pydict) io \<Rightarrow> outcome" where
  "respond m =
     (case m of
        (t, Inr (s, b)) \<Rightarrow> \<lparr>calls = t, status = s, body = b\<rparr>
      | (t, Inl e) \<Rightarrow> \<lparr>calls = t, status = 500, body = [(''error'', PStr (str e))]\<rparr>)"

section \<open>The application's global state and collaborators\<close>

text \<open>
  What a handler reads besides the request: the flag \<^verbatim>\<open>ml_models_ready\<close>, the clock, the
  interpreter's float rounding, and the imported objects \<^verbatim>\<open>constraint_engine\<close>,
  \<^verbatim>\<open>design_generator\<close>, \<^verbatim>\<open>evaluator\<close>, \<^verbatim>\<open>cost_predictor\<close>, \<^verbatim>\<open>design_ranker\<close>,
  \<^verbatim>\<open>design_recommender\<close> and \<^verbatim>\<open>save_project\<close>. Their code is not part of \<^verbatim>\<open>app.py\<close>; they
  are parameters, typed by the signatures the specification gives them, and each may
  raise. \<open>recommend_design\<close> takes the optional \<^verbatim>\<open>top_n\<close>.
\<close>

record env =
  ml_models_ready :: bool
  now_isoformat :: string
  round_float :: "real \<Rightarrow> nat \<Rightarrow> real"
  validate :: "pyval \<Rightarrow> exn + bool \<times> string list"
  process :: "pyval \<Rightarrow> exn + pyval"
  calculate_feasibility :: "pyval \<Rightarrow> exn + pyval"
  generate :: "pyval \<Rightarrow> exn + pydict list"
  evaluate :: "pyval \<Rightarrow> pyval \<Rightarrow> exn + pyval"
  rank_designs :: "pyval \<Rightarrow> exn + pyval"
  predict :: "pyval \<Rightarrow> pyval \<Rightarrow> pyval \<Rightarrow> pyval \<Rightarrow> pyval \<Rightarrow> exn + real option"
  get_feature_importance :: "exn + pyval"
  ml_rank_designs :: "pyval \<Rightarrow> pyval \<Rightarrow> exn + (pyval \<times> pyval) list"
  recommend_design :: "pyval \<Rightarrow> nat option \<Rightarrow> exn + pyval"
  save_project :: "pyval \<Rightarrow> pydict list \<Rightarrow> pydict \<Rightarrow> pyval \<Rightarrow> exn + pyval"

section \<open>Startup: training the models\<close>

record trainers =
  auto_load_training_data :: "exn + pyval"
  prepare_cost_training_data :: "pyval \<Rightarrow> exn + pyval"
  prepare_preference_training_data :: "pyval \<Rightarrow> exn + pyval"
  prepare_historical_training_data :: "pyval \<Rightarrow> exn + pyval"
  generate_synthetic_cost_data :: "nat \<Rightarrow> exn + pyval"
  generate_synthetic_preference_data :: "nat \<Rightarrow> exn + pyval"
  generate_synthetic_historical_projects :: "nat \<Rightarrow> exn + pyval"
  cost_predictor_train :: "pyval \<Rightarrow> exn + unit"
  design_ranker_train :: "pyval \<Rightarrow> exn + unit"
  learn_from_history :: "pyval \<Rightarrow> exn + unit"

text \<open>The body of the \<^verbatim>\<open>try\<close> block at module level (lines 151 to 172).\<close>

definition train_models :: "trainers \<Rightarrow> unit io" where
  "train_models tr =
     io_bind (invoke AutoLoadTrainingData (auto_load_training_data tr)) (\<lambda>real_data.
     io_bind (io_lift (py_getitem real_data ''cost'')) (\<lambda>cost.
     if truthy cost then
       io_bind (io_lift (py_getitem real_data ''cost'')) (\<lambda>cost_rows.
       io_bind (invoke PrepareCost (prepare_cost_training_data tr cost_rows)) (\<lambda>cost_data.
       io_bind (invoke TrainCost (cost_predictor_train tr cost_data)) (\<lambda>_.
       io_bind (io_lift (py_getitem real_data ''preference'')) (\<lambda>preference_rows.
       io_bind (invoke PreparePreference (prepare_preference_training_data tr preference_rows)) (\<lambda>preference_data.
       io_bind (invoke TrainRanker (design_ranker_train tr preference_data)) (\<lambda>_.
       io_bind (io_lift (py_getitem real_data ''historical'')) (\<lambda>historical_rows.
       io_bind (invoke PrepareHistorical (prepare_historical_training_data tr historical_rows)) (\<lambda>historical_data.
       io_bind (invoke LearnFromHistory (learn_from_history tr historical_data)) (\<lambda>_.
       io_bind (io_lift (py_getitem real_data ''cost'')) (\<lambda>cost_again.
       io_bind (io_lift (py_len cost_again)) (\<lambda>_.
       io_return ())))))))))))
     else
       io_bind (invoke SyntheticCost (generate_synthetic_cost_data tr 200)) (\<lambda>cost_data.
       io_bind (invoke TrainCost (cost_predictor_train tr cost_data)) (\<lambda>_.
       io_bind (invoke SyntheticPreference (generate_synthetic_preference_data tr 150)) (\<lambda>preference_data.
       io_bind (invoke TrainRanker (design_ranker_train tr preference_data)) (\<lambda>_.
       io_bind (invoke SyntheticHistorical (generate_synthetic_historical_projects tr 100)) (\<lambda>historical_data.
       io_bind (invoke LearnFromHistory (learn_from_history tr historical_data)) (\<lambda>_.
       io_return ()))))))))"

text \<open>
  The whole \<^verbatim>\<open>try ... except Exception\<close>: the value is the trace of the training calls and
  the flag \<^verbatim>\<open>ml_models_ready\<close> the module ends up with. Both branches assign \<^verbatim>\<open>True\<close>.
\<close>

definition startup :: "trainers \<Rightarrow> call list \<times> bool" where
  "startup tr =
     (case train_models tr of
        (t, Inr _) \<Rightarrow> (t, True)
      | (t, Inl e) \<Rightarrow> (t, True))"

section \<open>The routes\<close>

subsection \<open>\<^verbatim>\<open>GET /api/health\<close>\<close>

definition health :: "env \<Rightarrow> outcome" where
  "health env =
     \<lparr>calls = [], status = 200,
      body = [(''status'', PStr ''healthy''),
              (''service'', PStr ''Sustainable Design API''),
              (''ml_enabled'', PBool (ml_models_ready env)),
              (''timestamp'', PStr (now_isoformat env))]\<rparr>"

subsection \<open>\<^verbatim>\<open>POST /api/constraints/validate\<close>\<close>

definition validate_constraints :: "env \<Rightarrow> pyval \<Rightarrow> outcome" where
  "validate_constraints env data = respond (
     io_bind (invoke Validate (validate env data)) (\<lambda>(is_valid, errors).
     if \<not> is_valid then
       io_return (400, [(''valid'', PBool False), (''errors'', PList (map PStr errors))])
     else
       io_bind (invoke Process (process env data)) (\<lambda>processed.
       io_bind (invoke CalculateFeasibility (calculate_feasibility env processed)) (\<lambda>score.
       io_return (200, [(''valid'', PBool True),
                        (''original'', data),
                        (''processed'', processed),
                        (''feasibility_score'', score)])))))"

subsection \<open>\<^verbatim>\<open>POST /api/designs/generate\<close>\<close>

text \<open>
  The cost prediction of one design (lines 263 to 275): under \<^verbatim>\<open>ml_models_ready\<close>, a
  \<^verbatim>\<open>try\<close> whose bare \<^verbatim>\<open>except\<close> passes; the key is set only for a truthy prediction.
\<close>

definition add_predicted_cost :: "env \<Rightarrow> pyval \<Rightarrow> nat \<Rightarrow> pydict \<Rightarrow> pydict io" where
  "add_predicted_cost env constraints idx design =
     (if ml_models_ready env then
        io_try
          (io_bind (io_lift (py_getitem constraints ''area'')) (\<lambda>area.
           io_bind (io_lift (py_getitem constraints ''budget'')) (\<lambda>budget.
           io_bind (io_lift (py_getitem constraints ''climate'')) (\<lambda>climate.
           io_bind (io_lift (py_getitem constraints ''priority'')) (\<lambda>priority.
           io_bind (invoke Predict (predict env area budget climate priority (PInt (int idx)))) (\<lambda>predicted_cost.
           io_return
             (case predicted_cost of
                None \<Rightarrow> design
              | Some c \<Rightarrow> if c \<noteq> 0 then AList.update ''ml_predicted_cost'' (PFloat c) design
                          else design)))))))
          (io_return design)
      else io_return design)"

text \<open>The loop \<^verbatim>\<open>for idx, design in enumerate(designs)\<close> (lines 258 to 277).\<close>

fun evaluate_designs :: "env \<Rightarrow> pyval \<Rightarrow> nat \<Rightarrow> pydict list \<Rightarrow> pydict list io" where
  "evaluate_designs env constraints idx [] = io_return []"
| "evaluate_designs env constraints idx (design # designs) =
     io_bind (invoke Evaluate (evaluate env (PDict design) constraints)) (\<lambda>metrics.
     io_bind (add_predicted_cost env constraints idx (AList.update ''metrics'' metrics design)) (\<lambda>design'.
     io_bind (evaluate_designs env constraints (Suc idx) designs) (\<lambda>evaluated_designs.
     io_return (design' # evaluated_designs))))"

text \<open>
  The list comprehension
  \<^verbatim>\<open>[{'id': d.get('id'), 'ml_score': round(score, 2)} for d, score in ranked]\<close>.
\<close>

fun ranking_entries :: "(real \<Rightarrow> nat \<Rightarrow> real) \<Rightarrow> (pyval \<times> pyval) list \<Rightarrow> exn + pyval list" where
  "ranking_entries rnd [] = Inr []"
| "ranking_entries rnd ((d, score) # ranked) =
     (case py_get d ''id'' PNone of
        Inl e \<Rightarrow> Inl e
      | Inr i \<Rightarrow>
          (case py_round rnd score 2 of
             Inl e \<Rightarrow> Inl e
           | Inr s \<Rightarrow>
               (case ranking_entries rnd ranked of
                  Inl e \<Rightarrow> Inl e
                | Inr entries \<Rightarrow> Inr (PDict [(''id'', i), (''ml_score'', s)] # entries))))"

text \<open>
  The ML ranking block, the same text in \<^verbatim>\<open>generate_designs\<close> (lines 280 to 287) and in
  \<^verbatim>\<open>get_rankings\<close> (lines 467 to 474): \<^verbatim>\<open>ml_rankings\<close> starts as \<^verbatim>\<open>None\<close> and stays so when
  the flag is off or anything in the \<^verbatim>\<open>try\<close> raises.
\<close>

definition ml_ranking :: "env \<Rightarrow> pyval \<Rightarrow> pyval \<Rightarrow> pyval io" where
  "ml_ranking env designs constraints =
     (if ml_models_ready env then
        io_try
          (io_bind (invoke MLRankDesigns (ml_rank_designs env designs constraints)) (\<lambda>ranked.
           io_bind (io_lift (ranking_entries (round_float env) ranked)) (\<lambda>entries.
           io_return (PList entries))))
          (io_return PNone)
      else io_return PNone)"

text \<open>The recommendation block of \<^verbatim>\<open>generate_designs\<close> (lines 290 to 295).\<close>

definition historical_recommendation :: "env \<Rightarrow> pyval \<Rightarrow> pyval io" where
  "historical_recommendation env constraints =
     (if ml_models_ready env then
        io_try (invoke RecommendDesign (recommend_design env constraints None)) (io_return PNone)
      else io_return PNone)"

text \<open>The persistence block (lines 310 to 317): \<^verbatim>\<open>except Exception: pass\<close>.\<close>

definition persist :: "env \<Rightarrow> pyval \<Rightarrow> pydict list \<Rightarrow> pyval \<Rightarrow> pyval \<Rightarrow> pyval \<Rightarrow> pydict \<Rightarrow> pydict io" where
  "persist env constraints evaluated_designs ml_rankings recommendations user_id response =
     io_try
       (io_bind
          (invoke SaveProject
             (save_project env constraints evaluated_designs
                [(''ml_rankings'', ml_rankings), (''recommendations'', recommendations)] user_id))
          (\<lambda>project_id. io_return (AList.update ''project_id'' project_id response)))
       (io_return response)"

text \<open>
  The response dictionary (lines 297 to 307): the two ML fields are set whenever
  \<^verbatim>\<open>ml_models_ready\<close> holds, whatever their values.
\<close>

definition build_response :: "env \<Rightarrow> pyval \<Rightarrow> pydict list \<Rightarrow> pyval \<Rightarrow> pyval \<Rightarrow> pydict" where
  "build_response env constraints evaluated_designs ml_rankings recommendations =
     (let response = [(''designs'', PList (map PDict evaluated_designs)),
                      (''count'', PInt (int (length evaluated_designs))),
                      (''constraints'', constraints),
                      (''generated_at'', PStr (now_isoformat env))]
      in if ml_models_ready env
         then AList.update ''recommendations'' recommendations
                (AList.update ''ml_rankings'' ml_rankings response)
         else response)"

definition generate_designs :: "env \<Rightarrow> pyval \<Rightarrow> outcome" where
  "generate_designs env constraints = respond (
     io_bind (io_lift (py_get constraints ''user_id'' PNone)) (\<lambda>user_id.
     io_bind (invoke Validate (validate env constraints)) (\<lambda>(is_valid, _).
     if \<not> is_valid then io_return (400, [(''error'', PStr ''Invalid constraints'')])
     else
       io_bind (invoke Generate (generate env constraints)) (\<lambda>designs.
       io_bind (evaluate_designs env constraints 0 designs) (\<lambda>evaluated_designs.
       io_bind (ml_ranking env (PList (map PDict evaluated_designs)) constraints) (\<lambda>ml_rankings.
       io_bind (historical_recommendation env constraints) (\<lambda>recommendations.
       io_bind (persist env constraints evaluated_designs ml_rankings recommendations user_id
                  (build_response env constraints evaluated_designs ml_rankings recommendations))
         (\<lambda>response. io_return (200, response)))))))))"

subsection \<open>\<^verbatim>\<open>POST /api/comparison/rankings\<close>\<close>

definition get_rankings :: "env \<Rightarrow> pyval \<Rightarrow> outcome" where
  "get_rankings env data = respond (
     io_bind (io_lift (py_get data ''designs'' (PList []))) (\<lambda>designs.
     io_bind (io_lift (py_get data ''constraints'' (PDict []))) (\<lambda>constraints.
     if \<not> truthy designs then io_return (400, [(''error'', PStr ''No designs provided'')])
     else
       io_bind (invoke RankDesigns (rank_designs env designs)) (\<lambda>rule_based_rankings.
       io_bind (ml_ranking env designs constraints) (\<lambda>ml_rankings.
       io_bind (io_lift (py_len designs)) (\<lambda>total_designs.
       let response = [(''rule_based_rankings'', rule_based_rankings),
                       (''total_designs'', PInt total_designs)]
       in io_return (200,
            if truthy ml_rankings then AList.update ''ml_rankings'' ml_rankings response
            else response)))))))"

subsection \<open>\<^verbatim>\<open>POST /api/ml/cost-prediction\<close>\<close>

definition predict_cost :: "env \<Rightarrow> pyval \<Rightarrow> outcome" where
  "predict_cost env data =
     (if \<not> ml_models_ready env then
        \<lparr>calls = [], status = 503, body = [(''error'', PStr ''ML models not available'')]\<rparr>
      else respond (
        io_bind (io_lift (py_get data ''area'' (PInt 1000))) (\<lambda>area.
        io_bind (io_lift (py_get data ''budget'' (PInt 50))) (\<lambda>budget.
        io_bind (io_lift (py_get data ''climate'' (PStr ''moderate''))) (\<lambda>climate.
        io_bind (io_lift (py_get data ''priority'' (PStr ''energy''))) (\<lambda>priority.
        io_bind (io_lift (py_get data ''design_id'' (PInt 0))) (\<lambda>design_id.
        io_bind (invoke Predict (predict env area budget climate priority design_id)) (\<lambda>predicted_cost.
        case predicted_cost of
          None \<Rightarrow> io_return (500, [(''error'', PStr ''Prediction failed'')])
        | Some cost \<Rightarrow>
            io_bind (invoke GetFeatureImportance (get_feature_importance env)) (\<lambda>importance.
            io_return (200, [(''predicted_cost'', PInt (py_int cost)),
                             (''confidence'', PFloat 0.85),
                             (''feature_importance'', importance),
                             (''model'', PStr ''LinearRegression'')]))))))))))"

subsection \<open>\<^verbatim>\<open>POST /api/ml/recommendations\<close>\<close>

definition design_names :: "string list" where
  "design_names = [''Eco-Efficient'', ''Carbon-Optimized'', ''Regenerative'']"

definition get_recommendations :: "env \<Rightarrow> pyval \<Rightarrow> outcome" where
  "get_recommendations env constraints =
     (if \<not> ml_models_ready env then
        \<lparr>calls = [], status = 503, body = [(''error'', PStr ''ML models not available'')]\<rparr>
      else respond (
        io_bind (invoke RecommendDesign (recommend_design env constraints (Some 3))) (\<lambda>recommendations.
        io_bind (io_lift (py_getitem recommendations ''recommended_design'')) (\<lambda>recommended.
        io_bind (io_lift (if recommended \<noteq> PNone
                          then map_sum id PStr (py_list_index design_names recommended)
                          else Inr PNone)) (\<lambda>name.
        io_bind (io_lift (py_getitem recommendations ''confidence'')) (\<lambda>confidence.
        io_bind (io_lift (py_round (round_float env) confidence 3)) (\<lambda>rounded.
        io_return (200, [(''recommended_design'', name),
                         (''recommended_design_id'', recommended),
                         (''confidence'', rounded),
                         (''model'', PStr ''HistoricalSimilarity'')]))))))))"

section \<open>The collaborators the specification describes\<close>

text \<open>
  Modelled from the spec: \<^verbatim>\<open>ConstraintEngine.validate\<close> (the module \<^verbatim>\<open>constraints\<close> is imported
  by \<^verbatim>\<open>app.py\<close> but is not among the sources). The specification's data model gives the
  domains: \<^verbatim>\<open>area\<close> an integer in [300, 2000], \<^verbatim>\<open>budget\<close> an integer in [0, 100], \<^verbatim>\<open>climate\<close>
  one of cold, moderate, hot, \<^verbatim>\<open>priority\<close> one of energy, water, materials. Its section 4.1
  says: "Missing or out-of-range fields each produce one error message naming the
  offending field; multiple errors may be reported together (not fail-fast on first
  error)". The wording of a message is not given; here a message starts with the name
  of its field.
\<close>

definition area_ok :: "pyval option \<Rightarrow> bool" where
  "area_ok v = (case v of Some (PInt a) \<Rightarrow> 300 \<le> a \<and> a \<le> 2000 | _ \<Rightarrow> False)"

definition budget_ok :: "pyval option \<Rightarrow> bool" where
  "budget_ok v = (case v of Some (PInt b) \<Rightarrow> 0 \<le> b \<and> b \<le> 100 | _ \<Rightarrow> False)"

definition climate_ok :: "pyval option \<Rightarrow> bool" where
  "climate_ok v = (case v of Some (PStr s) \<Rightarrow> s \<in> set [''cold'', ''moderate'', ''hot''] | _ \<Rightarrow> False)"

definition priority_ok :: "pyval option \<Rightarrow> bool" where
  "priority_ok v = (case v of Some (PStr s) \<Rightarrow> s \<in> set [''energy'', ''water'', ''materials''] | _ \<Rightarrow> False)"

definition field_checks :: "(string \<times> (pyval option \<Rightarrow> bool)) list" where
  "field_checks =
     [(''area'', area_ok), (''budget'', budget_ok), (''climate'', climate_ok), (''priority'', priority_ok)]"

definition bad_fields :: "pydict \<Rightarrow> string list" where
  "bad_fields d = map fst (filter (\<lambda>(f, ok). \<not> ok (map_of d f)) field_checks)"

definition field_error :: "string \<Rightarrow> string" where
  "field_error f = f @ '': missing or out of range''"

definition ConstraintEngine_validate :: "pydict \<Rightarrow> bool \<times> string list" where
  "ConstraintEngine_validate d = (let errors = map field_error (bad_fields d) in (errors = [], errors))"

text \<open>
  A collaborator the specification describes on constraint objects, as a function on
  any JSON value: what it does on a value that is not an object is left to \<open>other\<close>.
\<close>

definition on_object :: "(pydict \<Rightarrow> 'a) \<Rightarrow> (pyval \<Rightarrow> exn + 'a) \<Rightarrow> pyval \<Rightarrow> exn + 'a" where
  "on_object f other v = (case v of PDict d \<Rightarrow> Inr (f d) | _ \<Rightarrow> other v)"

text \<open>
  Modelled from the spec: \<^verbatim>\<open>DesignGenerator.generate\<close> (the module \<^verbatim>\<open>generator\<close> is not among
  the sources). Section 4.2: "\<^verbatim>\<open>generate(constraints) -> [Design; exactly 3]\<close>: synthesizes
  three structurally-distinct but constraint-consistent alternatives, one per fixed
  archetype"; section 3: a design is \<^verbatim>\<open>{id, name, attributes...}\<close> with \<^verbatim>\<open>id\<close> in {0,1,2} and
  the archetype names Eco-Efficient, Carbon-Optimized, Regenerative. The attributes are
  a design choice of the generator; they are the parameter \<open>attributes\<close>.
\<close>

definition DesignGenerator_generate :: "(pydict \<Rightarrow> nat \<Rightarrow> pydict) \<Rightarrow> pydict \<Rightarrow> pydict list" where
  "DesignGenerator_generate attributes constraints =
     map (\<lambda>i. AList.update ''name'' (PStr (design_names ! i))
                (AList.update ''id'' (PInt (int i)) (attributes constraints i)))
       [0, 1, 2]"

text \<open>
  Modelled from the spec: \<^verbatim>\<open>SustainabilityEvaluator.evaluate\<close> (the module \<^verbatim>\<open>evaluator\<close> is not
  among the sources). Section 3: metrics are \<^verbatim>\<open>{energyEfficiency, waterEfficiency,
  carbonFootprint}\<close>, "each a normalized scalar ... computed deterministically from a
  Design and its generating Constraints". The formulas are the parameter \<open>formulas\<close>.
\<close>

definition SustainabilityEvaluator_evaluate ::
    "(pyval \<Rightarrow> pyval \<Rightarrow> real \<times> real \<times> real) \<Rightarrow> pyval \<Rightarrow> pyval \<Rightarrow> pyval" where
  "SustainabilityEvaluator_evaluate formulas design constraints =
     (case formulas design constraints of
        (e, w, c) \<Rightarrow>
          PDict [(''energyEfficiency'', PFloat e), (''waterEfficiency'', PFloat w),
                 (''carbonFootprint'', PFloat c)])"

text \<open>
  An environment whose constraint engine, generator and evaluator are the three
  collaborators above; the ML collaborators and the persistence stay arbitrary.
\<close>

definition with_specified_core ::
    "env \<Rightarrow> (pyval \<Rightarrow> exn + bool \<times> string list) \<Rightarrow> (pyval \<Rightarrow> exn + pydict list)
       \<Rightarrow> (pydict \<Rightarrow> nat \<Rightarrow> pydict) \<Rightarrow> (pyval \<Rightarrow> pyval \<Rightarrow> real \<times> real \<times> real) \<Rightarrow> env" where
  "with_specified_core env other other' attributes formulas =
     env\<lparr>validate := on_object ConstraintEngine_validate other,
         generate := on_object (DesignGenerator_generate attributes) other',
         evaluate := (\<lambda>design constraints.
                        Inr (SustainabilityEvaluator_evaluate formulas design constraints))\<rparr>"

section \<open>Sample requests and a sample environment\<close>

text \<open>The two requests of the specification's end-to-end scenarios.\<close>

definition hot_water_request :: pydict where
  "hot_water_request =
     [(''area'', PInt 1200), (''budget'', PInt 60), (''climate'', PStr ''hot''), (''priority'', PStr ''water'')]"

definition small_area_request :: pydict where
  "small_area_request =
     [(''area'', PInt 50), (''budget'', PInt 60), (''climate'', PStr ''hot''), (''priority'', PStr ''water'')]"

text \<open>
  An environment in which every collaborator answers: the three collaborators above,
  and fixed answers for the rest.
\<close>

definition sample_env :: env where
  "sample_env =
     \<lparr>ml_models_ready = True,
      now_isoformat = ''2024-05-01T12:00:00'',
      round_float = (\<lambda>x n. x),
      validate = on_object ConstraintEngine_validate (\<lambda>v. Inl (Exception ''not an object'')),
      process = (\<lambda>data. Inr data),
      calculate_feasibility = (\<lambda>processed. Inr (PFloat 1)),
      generate = on_object (DesignGenerator_generate (\<lambda>c i. [])) (\<lambda>v. Inl (Exception ''not an object'')),
      evaluate = (\<lambda>design constraints.
                    Inr (SustainabilityEvaluator_evaluate (\<lambda>d c. (1, 1, 1)) design constraints)),
      rank_designs = (\<lambda>designs. Inr designs),
      predict = (\<lambda>area budget climate priority idx. Inr (Some 1000)),
      get_feature_importance = Inr (PDict []),
      ml_rank_designs = (\<lambda>designs constraints.
                           Inr (case designs of PList ds \<Rightarrow> map (\<lambda>d. (d, PFloat 1)) ds | _ \<Rightarrow> [])),
      recommend_design = (\<lambda>constraints top_n.
                            Inr (PDict [(''recommended_design'', PInt 0), (''confidence'', PFloat 1)])),
      save_project = (\<lambda>constraints designs ml user_id. Inr (PInt 1))\<rparr>"

text \<open>
  The sample environment with a predictor that has no figure for a climate outside its
  three categories, nor for the archetype with index 1.
\<close>

definition selective_env :: env where
  "selective_env =
     sample_env\<lparr>predict := (\<lambda>area budget climate priority idx.
        if climate \<notin> set [PStr ''cold'', PStr ''moderate'', PStr ''hot''] \<or> idx = PInt 1
        then Inr None else Inr (Some 1000))\<rparr>"

text \<open>The sample environment with a ranker and a recommender that raise.\<close>

definition failing_ml_env :: env where
  "failing_ml_env =
     sample_env\<lparr>ml_rank_designs := \<lambda>designs constraints. Inl (Exception ''ranker not fitted''),
                 recommend_design := \<lambda>constraints top_n. Inl (Exception ''no history'')\<rparr>"

definition sample_ranking_request :: pyval where
  "sample_ranking_request =
     PDict [(''designs'', PList [PDict [(''id'', PInt 0)], PDict [(''id'', PInt 1)]]),
            (''constraints'', PDict hot_water_request)]"

definition sample_trainers :: trainers where
  "sample_trainers =
     \<lparr>auto_load_training_data = Inl (Exception ''data folder not found''),
      prepare_cost_training_data = (\<lambda>rows. Inr rows),
      prepare_preference_training_data = (\<lambda>rows. Inr rows),
      prepare_historical_training_data = (\<lambda>rows. Inr rows),
      generate_synthetic_cost_data = (\<lambda>n. Inr (PList [])),
      generate_synthetic_preference_data = (\<lambda>n. Inr (PList [])),
      generate_synthetic_historical_projects = (\<lambda>n. Inr (PList [])),
      cost_predictor_train = (\<lambda>samples. Inr ()),
      design_ranker_train = (\<lambda>samples. Inr ()),
      learn_from_history = (\<lambda>projects. Inr ())\<rparr>"

section \<open>Basic facts about the effect combinators\<close>

lemma io_bind_return [simp]: "io_bind (io_return x) f = f x"
  by (simp add: io_bind_def io_return_def split: prod.splits)

lemma io_bind_Inl [simp]: "io_bind (t, Inl e) f = (t, Inl e)"
  by (simp add: io_bind_def)

lemma io_bind_Inr [simp]: "io_bind (t, Inr x) f = (t @ fst (f x), snd (f x))"
  by (simp add: io_bind_def split: prod.splits)

lemma io_try_Inl [simp]: "io_try (t, Inl e) h = (t @ fst h, snd h)"
  by (simp add: io_try_def split: prod.splits)

lemma io_try_Inr [simp]: "io_try (t, Inr x) h = (t, Inr x)"
  by (simp add: io_try_def)

lemma status_respond:
  "status (respond m) = (case snd m of Inl e \<Rightarrow> 500 | Inr (s, b) \<Rightarrow> s)"
  by (cases m) (simp add: respond_def split: sum.splits prod.splits)

section \<open>The readiness flag\<close>

lemma startup_ready: "snd (startup tr) = True"
  by (simp add: startup_def split: prod.splits sum.splits)

lemma predict_cost_not_503:
  "ml_models_ready env \<Longrightarrow> status (predict_cost env data) \<noteq> 503"
  by (auto simp: predict_cost_def respond_def io_bind_def io_lift_def invoke_def io_return_def
      split: sum.splits prod.splits option.splits)

lemma get_recommendations_not_503:
  "ml_models_ready env \<Longrightarrow> status (get_recommendations env constraints) \<noteq> 503"
  by (auto simp: get_recommendations_def respond_def io_bind_def io_lift_def invoke_def io_return_def
      split: sum.splits prod.splits option.splits)

text \<open>
  Claim C9. Whatever the data loader and the training calls do (return or raise), the
  module-level \<^verbatim>\<open>try\<close> block leaves \<^verbatim>\<open>ml_models_ready = True\<close>. With the flag as startup
  leaves it, \<^verbatim>\<open>predict_cost\<close> and \<^verbatim>\<open>get_recommendations\<close> never answer 503 (their
  "ML models not available" branch), and \<^verbatim>\<open>health\<close> reports \<^verbatim>\<open>ml_enabled\<close> true, for every
  request and every behaviour of the other collaborators.
\<close>

theorem ml_models_ready_after_startup:
  "snd (startup tr) = True
   \<and> status (predict_cost (env\<lparr>ml_models_ready := snd (startup tr)\<rparr>) data) \<noteq> 503
   \<and> status (get_recommendations (env\<lparr>ml_models_ready := snd (startup tr)\<rparr>) constraints) \<noteq> 503
   \<and> map_of (body (health (env\<lparr>ml_models_ready := snd (startup tr)\<rparr>))) ''ml_enabled''
       = Some (PBool True)"
proof -
  have ready: "ml_models_ready (env\<lparr>ml_models_ready := snd (startup tr)\<rparr>)"
    by (simp add: startup_ready)
  have "map_of (body (health (env\<lparr>ml_models_ready := snd (startup tr)\<rparr>))) ''ml_enabled''
        = Some (PBool True)"
    by (simp add: health_def startup_ready)
  with ready show ?thesis
    by (simp add: startup_ready predict_cost_not_503 get_recommendations_not_503)
qed

text \<open>
  The same at a concrete startup in which loading the training data raises: the trace
  shows that no model was trained, and the flag is set all the same.
\<close>

theorem ml_models_ready_after_startup_witness:
  "startup sample_trainers = ([AutoLoadTrainingData], True)
   \<and> status (predict_cost (sample_env\<lparr>ml_models_ready := snd (startup sample_trainers)\<rparr>) (PDict [])) \<noteq> 503
   \<and> status (get_recommendations (sample_env\<lparr>ml_models_ready := snd (startup sample_trainers)\<rparr>)
         (PDict hot_water_request)) \<noteq> 503
   \<and> map_of (body (health (sample_env\<lparr>ml_models_ready := snd (startup sample_trainers)\<rparr>))) ''ml_enabled''
       = Some (PBool True)"
proof -
  have "startup sample_trainers = ([AutoLoadTrainingData], True)"
    by (simp add: startup_def train_models_def sample_trainers_def invoke_def)
  then show ?thesis
    using ml_models_ready_after_startup [of sample_trainers sample_env "PDict []" "PDict hot_water_request"]
    by simp
qed

section \<open>Validation\<close>

lemma bad_fields_unfold:
  "bad_fields d =
     (if area_ok (map_of d ''area'') then [] else [''area''])
     @ (if budget_ok (map_of d ''budget'') then [] else [''budget''])
     @ (if climate_ok (map_of d ''climate'') then [] else [''climate''])
     @ (if priority_ok (map_of d ''priority'') then [] else [''priority''])"
  by (simp add: bad_fields_def field_checks_def)

lemma validate_constraints_invalid:
  "validate env data = Inr (False, errors) \<Longrightarrow>
   validate_constraints env data =
     \<lparr>calls = [Validate], status = 400,
      body = [(''valid'', PBool False), (''errors'', PList (map PStr errors))]\<rparr>"
  by (simp add: validate_constraints_def invoke_def respond_def io_return_def)

lemma validate_constraints_valid:
  "validate env data = Inr (True, errors) \<Longrightarrow> process env data = Inr processed \<Longrightarrow>
   calculate_feasibility env processed = Inr score \<Longrightarrow>
   validate_constraints env data =
     \<lparr>calls = [Validate, Process, CalculateFeasibility], status = 200,
      body = [(''valid'', PBool True), (''original'', data), (''processed'', processed),
              (''feasibility_score'', score)]\<rparr>"
  by (simp add: validate_constraints_def invoke_def respond_def io_return_def)

lemma generate_designs_invalid:
  "py_get constraints ''user_id'' PNone = Inr u \<Longrightarrow> validate env constraints = Inr (False, errors) \<Longrightarrow>
   generate_designs env constraints =
     \<lparr>calls = [Validate], status = 400, body = [(''error'', PStr ''Invalid constraints'')]\<rparr>"
  by (simp add: generate_designs_def invoke_def respond_def io_return_def io_lift_def)

lemma sample_env_validate:
  "sample_env\<lparr>validate := on_object ConstraintEngine_validate (\<lambda>v. Inl (Exception ''not an object''))\<rparr>
   = sample_env"
  by (simp add: sample_env_def)

text \<open>The equations that evaluate a request in the sample environment.\<close>

lemmas sample_run =
  generate_designs_def sample_env_def hot_water_request_def py_get_def py_getitem_def
  io_lift_def invoke_def io_return_def on_object_def ConstraintEngine_validate_def
  bad_fields_unfold area_ok_def budget_ok_def climate_ok_def priority_ok_def
  DesignGenerator_generate_def design_names_def add_predicted_cost_def
  SustainabilityEvaluator_evaluate_def ml_ranking_def py_round_def
  historical_recommendation_def persist_def build_response_def respond_def

lemma sample_generation_ok:
  "status (generate_designs sample_env (PDict hot_water_request)) = 200"
  by (simp add: sample_run)

lemma sample_rankings_ok:
  "status (get_rankings sample_env sample_ranking_request) = 200"
  by (simp add: get_rankings_def sample_ranking_request_def sample_env_def py_get_def py_len_def
      io_lift_def invoke_def io_return_def ml_ranking_def py_round_def respond_def)

text \<open>
  Claim C5. With \<^verbatim>\<open>ConstraintEngine.validate\<close> as the specification describes it, the
  validation route answers a constraints object \<open>d\<close> as follows. The fields that are
  missing or outside their domain are \<open>bad_fields d\<close>: each of area, budget, climate and
  priority is listed once if and only if its check fails. If that list is not empty the
  answer is 400 with \<^verbatim>\<open>valid: false\<close> and one message per listed field, in the same
  order and each naming its field, all in one response. If the list is empty, and
  \<^verbatim>\<open>process\<close> and \<^verbatim>\<open>calculate_feasibility\<close> return, the answer is 200 with \<^verbatim>\<open>valid: true\<close>,
  the original input, the processed constraints and the feasibility score.
\<close>

theorem validation_reports_every_bad_field:
  "bad_fields d =
     (if area_ok (map_of d ''area'') then [] else [''area''])
     @ (if budget_ok (map_of d ''budget'') then [] else [''budget''])
     @ (if climate_ok (map_of d ''climate'') then [] else [''climate''])
     @ (if priority_ok (map_of d ''priority'') then [] else [''priority''])
   \<and> (bad_fields d \<noteq> [] \<longrightarrow>
        validate_constraints (env\<lparr>validate := on_object ConstraintEngine_validate other\<rparr>) (PDict d)
        = \<lparr>calls = [Validate], status = 400,
           body = [(''valid'', PBool False),
                   (''errors'', PList (map (\<lambda>f. PStr (field_error f)) (bad_fields d)))]\<rparr>)
   \<and> (\<forall>f \<in> set (bad_fields d). prefix f (field_error f))
   \<and> (bad_fields d = [] \<longrightarrow> process env (PDict d) = Inr processed \<longrightarrow>
        calculate_feasibility env processed = Inr score \<longrightarrow>
        validate_constraints (env\<lparr>validate := on_object ConstraintEngine_validate other\<rparr>) (PDict d)
        = \<lparr>calls = [Validate, Process, CalculateFeasibility], status = 200,
           body = [(''valid'', PBool True), (''original'', PDict d), (''processed'', processed),
                   (''feasibility_score'', score)]\<rparr>)"
proof -
  let ?env = "env\<lparr>validate := on_object ConstraintEngine_validate other\<rparr>"
  have call: "validate ?env (PDict d) = Inr (bad_fields d = [], map field_error (bad_fields d))"
    by (simp add: on_object_def ConstraintEngine_validate_def)
  have bad: "bad_fields d \<noteq> [] \<Longrightarrow>
      validate_constraints ?env (PDict d)
        = \<lparr>calls = [Validate], status = 400,
           body = [(''valid'', PBool False),
                   (''errors'', PList (map (\<lambda>f. PStr (field_error f)) (bad_fields d)))]\<rparr>"
    using validate_constraints_invalid [of ?env "PDict d" "map field_error (bad_fields d)"] call
    by (simp add: comp_def)
  have good: "bad_fields d = [] \<Longrightarrow> process env (PDict d) = Inr processed \<Longrightarrow>
      calculate_feasibility env processed = Inr score \<Longrightarrow>
      validate_constraints ?env (PDict d)
        = \<lparr>calls = [Validate, Process, CalculateFeasibility], status = 200,
           body = [(''valid'', PBool True), (''original'', PDict d), (''processed'', processed),
                   (''feasibility_score'', score)]\<rparr>"
    using validate_constraints_valid [of ?env "PDict d" "[]" processed score] call
    by simp
  have names: "\<forall>f \<in> set (bad_fields d). prefix f (field_error f)"
    by (simp add: field_error_def)
  show ?thesis
    using bad good names bad_fields_unfold [of d] by blast
qed


text \<open>
  The empty object misses all four fields and gets four messages at once; the
  specification's valid request gets the second form of answer.
\<close>

theorem validation_reports_every_bad_field_witness:
  "bad_fields [] = [''area'', ''budget'', ''climate'', ''priority'']
   \<and> validate_constraints sample_env (PDict [])
       = \<lparr>calls = [Validate], status = 400,
          body = [(''valid'', PBool False),
                  (''errors'', PList [PStr ''area: missing or out of range'',
                                      PStr ''budget: missing or out of range'',
                                      PStr ''climate: missing or out of range'',
                                      PStr ''priority: missing or out of range''])]\<rparr>
   \<and> bad_fields hot_water_request = []
   \<and> validate_constraints sample_env (PDict hot_water_request)
       = \<lparr>calls = [Validate, Process, CalculateFeasibility], status = 200,
          body = [(''valid'', PBool True), (''original'', PDict hot_water_request),
                  (''processed'', PDict hot_water_request), (''feasibility_score'', PFloat 1)]\<rparr>"
proof -
  have b0: "bad_fields [] = [''area'', ''budget'', ''climate'', ''priority'']"
    by (simp add: bad_fields_unfold area_ok_def budget_ok_def climate_ok_def priority_ok_def)
  have b1: "bad_fields hot_water_request = []"
    by (simp add: bad_fields_unfold hot_water_request_def area_ok_def budget_ok_def climate_ok_def
        priority_ok_def)
  have p: "process sample_env (PDict hot_water_request) = Inr (PDict hot_water_request)"
    by (simp add: sample_env_def)
  have f: "calculate_feasibility sample_env (PDict hot_water_request) = Inr (PFloat 1)"
    by (simp add: sample_env_def)
  show ?thesis
    using validation_reports_every_bad_field
            [where d = "[]" and env = sample_env and other = "\<lambda>v. Inl (Exception ''not an object'')"]
          validation_reports_every_bad_field
            [where d = hot_water_request and env = sample_env
               and other = "\<lambda>v. Inl (Exception ''not an object'')"
               and processed = "PDict hot_water_request" and score = "PFloat 1"]
          b0 b1 p f
    by (simp add: sample_env_validate field_error_def)
qed

text \<open>
  Claim C6. For the request \<^verbatim>\<open>{area: 50, budget: 60, climate: "hot", priority: "water"}\<close>,
  \<^verbatim>\<open>ConstraintEngine.validate\<close> as the specification describes it fails with exactly one
  error, which names \<^verbatim>\<open>area\<close>. The validation route returns that error with status 400.
  The generation route answers 400 "Invalid constraints", and the only collaborator it
  called is \<^verbatim>\<open>validate\<close>: \<^verbatim>\<open>DesignGenerator.generate\<close> is not in the trace, whatever the
  other collaborators would do.
\<close>

theorem small_area_request_rejected:
  "ConstraintEngine_validate small_area_request = (False, [field_error ''area''])
   \<and> prefix ''area'' (field_error ''area'')
   \<and> validate_constraints (env\<lparr>validate := on_object ConstraintEngine_validate other\<rparr>)
        (PDict small_area_request)
      = \<lparr>calls = [Validate], status = 400,
         body = [(''valid'', PBool False), (''errors'', PList [PStr (field_error ''area'')])]\<rparr>
   \<and> generate_designs (env\<lparr>validate := on_object ConstraintEngine_validate other\<rparr>)
        (PDict small_area_request)
      = \<lparr>calls = [Validate], status = 400, body = [(''error'', PStr ''Invalid constraints'')]\<rparr>
   \<and> Generate \<notin> set (calls (generate_designs
          (env\<lparr>validate := on_object ConstraintEngine_validate other\<rparr>) (PDict small_area_request)))"
proof -
  have v: "ConstraintEngine_validate small_area_request = (False, [field_error ''area''])"
    by (simp add: ConstraintEngine_validate_def bad_fields_unfold small_area_request_def
        area_ok_def budget_ok_def climate_ok_def priority_ok_def)
  let ?env = "env\<lparr>validate := on_object ConstraintEngine_validate other\<rparr>"
  have call: "validate ?env (PDict small_area_request) = Inr (False, [field_error ''area''])"
    by (simp add: on_object_def v)
  have u: "py_get (PDict small_area_request) ''user_id'' PNone = Inr PNone"
    by (simp add: py_get_def small_area_request_def)
  have p: "prefix ''area'' (field_error ''area'')"
    by (simp add: field_error_def)
  show ?thesis
    using v p validate_constraints_invalid [OF call] generate_designs_invalid [OF u call]
    by simp
qed


theorem small_area_request_rejected_witness:
  "generate_designs sample_env (PDict small_area_request)
     = \<lparr>calls = [Validate], status = 400, body = [(''error'', PStr ''Invalid constraints'')]\<rparr>
   \<and> validate_constraints sample_env (PDict small_area_request)
     = \<lparr>calls = [Validate], status = 400,
        body = [(''valid'', PBool False), (''errors'', PList [PStr ''area: missing or out of range''])]\<rparr>"
  using small_area_request_rejected
          [where env = sample_env and other = "\<lambda>v. Inl (Exception ''not an object'')"]
  by (simp add: sample_env_validate field_error_def)

section \<open>The generation pipeline\<close>

subsection \<open>The evaluation loop\<close>

lemma add_predicted_cost_cases:
  "(\<exists>t. add_predicted_cost env c idx d = (t, Inr d))
   \<or> (\<exists>t x. x \<noteq> 0 \<and> add_predicted_cost env c idx d
                = (t, Inr (AList.update ''ml_predicted_cost'' (PFloat x) d)))"
  by (auto simp: add_predicted_cost_def io_lift_def invoke_def io_return_def io_bind_def io_try_def
      split: sum.splits option.splits prod.splits)

lemma add_predicted_cost_total: "\<exists>t d'. add_predicted_cost env c idx d = (t, Inr d')"
  using add_predicted_cost_cases [of env c idx d] by blast

lemma add_predicted_cost_null:
  assumes "\<And>area budget climate priority.
             py_getitem c ''area'' = Inr area \<Longrightarrow> py_getitem c ''budget'' = Inr budget \<Longrightarrow>
             py_getitem c ''climate'' = Inr climate \<Longrightarrow> py_getitem c ''priority'' = Inr priority \<Longrightarrow>
             predict env area budget climate priority (PInt (int idx)) = Inr None"
  shows "snd (add_predicted_cost env c idx d) = Inr d"
proof (cases "ml_models_ready env")
  case False
  then show ?thesis by (simp add: add_predicted_cost_def io_return_def)
next
  case True
  show ?thesis
  proof (cases "py_getitem c ''area''")
    case (Inl e)
    with True show ?thesis by (simp add: add_predicted_cost_def io_lift_def io_return_def)
  next
    case area: (Inr area)
    show ?thesis
    proof (cases "py_getitem c ''budget''")
      case (Inl e)
      with True area show ?thesis by (simp add: add_predicted_cost_def io_lift_def io_return_def)
    next
      case budget: (Inr budget)
      show ?thesis
      proof (cases "py_getitem c ''climate''")
        case (Inl e)
        with True area budget show ?thesis
          by (simp add: add_predicted_cost_def io_lift_def io_return_def)
      next
        case climate: (Inr climate)
        show ?thesis
        proof (cases "py_getitem c ''priority''")
          case (Inl e)
          with True area budget climate show ?thesis
            by (simp add: add_predicted_cost_def io_lift_def io_return_def)
        next
          case priority: (Inr priority)
          have "predict env area budget climate priority (PInt (int idx)) = Inr None"
            using assms area budget climate priority by blast
          with True area budget climate priority show ?thesis
            by (simp add: add_predicted_cost_def io_lift_def invoke_def io_return_def)
        qed
      qed
    qed
  qed
qed

lemma add_predicted_cost_keeps:
  assumes "snd (add_predicted_cost env c idx d) = Inr d'" and "k \<noteq> ''ml_predicted_cost''"
  shows "map_of d' k = map_of d k"
  using add_predicted_cost_cases [of env c idx d] assms
  by (auto simp: update_conv')

lemma evaluate_designs_nth:
  "evaluate_designs env c idx ds = (t, Inr eds) \<Longrightarrow>
   length eds = length ds
   \<and> (\<forall>i<length ds. \<exists>m. evaluate env (PDict (ds ! i)) c = Inr m
          \<and> snd (add_predicted_cost env c (idx + i) (AList.update ''metrics'' m (ds ! i)))
              = Inr (eds ! i))"
proof (induction ds arbitrary: idx t eds)
  case Nil
  then show ?case by (simp add: io_return_def)
next
  case (Cons d ds)
  from Cons.prems obtain m where m: "evaluate env (PDict d) c = Inr m"
    by (cases "evaluate env (PDict d) c") (simp_all add: invoke_def)
  obtain t1 d' where d': "add_predicted_cost env c idx (AList.update ''metrics'' m d) = (t1, Inr d')"
    using add_predicted_cost_total by blast
  obtain t2 r where r: "evaluate_designs env c (Suc idx) ds = (t2, r)"
    by (cases "evaluate_designs env c (Suc idx) ds") 
  from Cons.prems m d' r obtain rest where rest: "r = Inr rest" and eds: "eds = d' # rest"
    by (cases r) (simp_all add: invoke_def io_return_def)
  from Cons.IH [of "Suc idx" t2 rest] r rest
  have IH: "length rest = length ds
     \<and> (\<forall>i<length ds. \<exists>m. evaluate env (PDict (ds ! i)) c = Inr m
          \<and> snd (add_predicted_cost env c (Suc idx + i) (AList.update ''metrics'' m (ds ! i)))
              = Inr (rest ! i))"
    by simp
  show ?case
  proof (intro conjI allI impI)
    show "length eds = length (d # ds)" using IH eds by simp
  next
    fix i assume i: "i < length (d # ds)"
    show "\<exists>m. evaluate env (PDict ((d # ds) ! i)) c = Inr m
          \<and> snd (add_predicted_cost env c (idx + i) (AList.update ''metrics'' m ((d # ds) ! i)))
              = Inr (eds ! i)"
    proof (cases i)
      case 0
      then show ?thesis using m d' eds by simp
    next
      case (Suc j)
      then show ?thesis using IH i eds by simp
    qed
  qed
qed

lemma evaluate_designs_total:
  "(\<And>d. d \<in> set ds \<Longrightarrow> \<exists>m. evaluate env (PDict d) c = Inr m) \<Longrightarrow>
   \<exists>t eds. evaluate_designs env c idx ds = (t, Inr eds)"
proof (induction ds arbitrary: idx)
  case Nil
  then show ?case by (simp add: io_return_def)
next
  case (Cons d ds)
  obtain m where m: "evaluate env (PDict d) c = Inr m" using Cons.prems by auto
  obtain t1 d' where d': "add_predicted_cost env c idx (AList.update ''metrics'' m d) = (t1, Inr d')"
    using add_predicted_cost_total by blast
  obtain t2 rest where r: "evaluate_designs env c (Suc idx) ds = (t2, Inr rest)"
    using Cons.IH [of "Suc idx"] Cons.prems by auto
  show ?case using m d' r by (simp add: invoke_def io_return_def)
qed

lemma evaluated_design_keys:
  assumes "evaluate_designs env c idx ds = (t, Inr eds)" and "i < length ds"
  shows "map_of (eds ! i) ''metrics'' \<noteq> None"
    and "k \<noteq> ''metrics'' \<Longrightarrow> k \<noteq> ''ml_predicted_cost'' \<Longrightarrow> map_of (eds ! i) k = map_of (ds ! i) k"
    and "evaluate env (PDict (ds ! i)) c = Inr m \<Longrightarrow> map_of (eds ! i) ''metrics'' = Some m"
proof -
  from evaluate_designs_nth [OF assms(1)] assms(2)
  obtain m' where m': "evaluate env (PDict (ds ! i)) c = Inr m'"
    and e: "snd (add_predicted_cost env c (idx + i) (AList.update ''metrics'' m' (ds ! i))) = Inr (eds ! i)"
    by blast
  have keep: "\<And>k. k \<noteq> ''ml_predicted_cost'' \<Longrightarrow>
      map_of (eds ! i) k = map_of (AList.update ''metrics'' m' (ds ! i)) k"
    using add_predicted_cost_keeps [OF e] by blast
  show "map_of (eds ! i) ''metrics'' \<noteq> None"
    using keep [of "''metrics''"] by (simp add: update_conv')
  show "k \<noteq> ''metrics'' \<Longrightarrow> k \<noteq> ''ml_predicted_cost'' \<Longrightarrow> map_of (eds ! i) k = map_of (ds ! i) k"
    using keep [of k] by (simp add: update_conv')
  show "evaluate env (PDict (ds ! i)) c = Inr m \<Longrightarrow> map_of (eds ! i) ''metrics'' = Some m"
    using keep [of "''metrics''"] m' by (simp add: update_conv')
qed

lemma ml_ranking_total: "\<exists>t v. ml_ranking env ds c = (t, Inr v)"
  by (auto simp: ml_ranking_def io_lift_def invoke_def io_return_def io_bind_def io_try_def
      split: sum.splits prod.splits)

lemma historical_recommendation_total: "\<exists>t v. historical_recommendation env c = (t, Inr v)"
  by (auto simp: historical_recommendation_def invoke_def io_return_def io_try_def
      split: sum.splits prod.splits)

lemma persist_cases:
  "persist env c eds mr recs u response =
     (case save_project env c eds [(''ml_rankings'', mr), (''recommendations'', recs)] u of
        Inl e \<Rightarrow> ([SaveProject], Inr response)
      | Inr pid \<Rightarrow> ([SaveProject], Inr (AList.update ''project_id'' pid response)))"
  by (simp add: persist_def invoke_def io_return_def split: sum.splits)

subsection \<open>The route as a whole\<close>

lemma generate_designs_success:
  assumes "py_get c ''user_id'' PNone = Inr u"
    and "validate env c = Inr (True, errs)"
    and "generate env c = Inr ds"
    and "evaluate_designs env c 0 ds = (t, Inr eds)"
    and "ml_ranking env (PList (map PDict eds)) c = (t1, Inr mr)"
    and "historical_recommendation env c = (t2, Inr recs)"
  shows "generate_designs env c =
     \<lparr>calls = [Validate, Generate] @ t @ t1 @ t2 @ [SaveProject], status = 200,
      body = (case save_project env c eds [(''ml_rankings'', mr), (''recommendations'', recs)] u of
                Inl e \<Rightarrow> build_response env c eds mr recs
              | Inr pid \<Rightarrow> AList.update ''project_id'' pid (build_response env c eds mr recs))\<rparr>"
  using assms
  by (simp add: generate_designs_def io_lift_def invoke_def io_return_def persist_cases respond_def
      split: sum.splits)

lemma generate_designs_200D:
  assumes "status (generate_designs env c) = 200"
  shows "\<exists>u errs ds t eds. py_get c ''user_id'' PNone = Inr u \<and> validate env c = Inr (True, errs)
           \<and> generate env c = Inr ds \<and> evaluate_designs env c 0 ds = (t, Inr eds)"
proof -
  obtain u where u: "py_get c ''user_id'' PNone = Inr u"
    using assms
    by (cases "py_get c ''user_id'' PNone")
       (simp_all add: generate_designs_def io_lift_def respond_def)
  obtain b errs where v: "validate env c = Inr (b, errs)"
    using assms u
    by (cases "validate env c")
       (auto simp add: generate_designs_def io_lift_def invoke_def respond_def)
  have b: "b"
    using assms u v
    by (cases b) (simp_all add: generate_designs_def io_lift_def invoke_def respond_def io_return_def)
  obtain ds where g: "generate env c = Inr ds"
    using assms u v b
    by (cases "generate env c")
       (simp_all add: generate_designs_def io_lift_def invoke_def respond_def)
  obtain t r where e: "evaluate_designs env c 0 ds = (t, r)"
    by (cases "evaluate_designs env c 0 ds")
  obtain eds where r: "r = Inr eds"
    using assms u v b g e
    by (cases r) (simp_all add: generate_designs_def io_lift_def invoke_def respond_def)
  show ?thesis using u v b g e r by auto
qed

lemma build_response_fields:
  "map_of (build_response env c eds mr recs) ''designs'' = Some (PList (map PDict eds))"
  "map_of (build_response env c eds mr recs) ''count'' = Some (PInt (int (length eds)))"
  "map_of (build_response env c eds mr recs) ''project_id'' = None"
  "ml_models_ready env \<Longrightarrow> map_of (build_response env c eds mr recs) ''ml_rankings'' = Some mr"
  "ml_models_ready env \<Longrightarrow> map_of (build_response env c eds mr recs) ''recommendations'' = Some recs"
  "\<not> ml_models_ready env \<Longrightarrow> map_of (build_response env c eds mr recs) ''ml_rankings'' = None"
  "\<not> ml_models_ready env \<Longrightarrow> map_of (build_response env c eds mr recs) ''recommendations'' = None"
  by (simp_all add: build_response_def Let_def update_conv')

subsection \<open>Collaborators a block does not read\<close>

lemma add_predicted_cost_cong:
  assumes "ml_models_ready env' = ml_models_ready env" "predict env' = predict env"
  shows "add_predicted_cost env' c idx d = add_predicted_cost env c idx d"
  using assms by (simp add: add_predicted_cost_def cong: if_cong)

lemma evaluate_designs_cong:
  assumes "ml_models_ready env' = ml_models_ready env" "evaluate env' = evaluate env"
    "predict env' = predict env"
  shows "evaluate_designs env' c idx ds = evaluate_designs env c idx ds"
  using assms
  by (induction ds arbitrary: idx) (simp_all add: add_predicted_cost_cong [of env' env])

lemma ml_ranking_cong:
  assumes "ml_models_ready env' = ml_models_ready env" "ml_rank_designs env' = ml_rank_designs env"
    "round_float env' = round_float env"
  shows "ml_ranking env' ds c = ml_ranking env ds c"
  using assms by (simp add: ml_ranking_def cong: if_cong)

lemma historical_recommendation_cong:
  assumes "ml_models_ready env' = ml_models_ready env" "recommend_design env' = recommend_design env"
  shows "historical_recommendation env' c = historical_recommendation env c"
  using assms by (simp add: historical_recommendation_def cong: if_cong)

lemma build_response_cong:
  assumes "ml_models_ready env' = ml_models_ready env" "now_isoformat env' = now_isoformat env"
  shows "build_response env' c eds mr recs = build_response env c eds mr recs"
  using assms by (simp add: build_response_def cong: if_cong)

lemma build_response_no_project_id:
  "''project_id'' \<notin> fst ` set (build_response env c eds mr recs)"
  by (simp add: build_response_def Let_def dom_update)

section \<open>Persistence\<close>

text \<open>
  Claim C10. Take any generation request that is answered 200 when \<^verbatim>\<open>save_project\<close>
  returns a project id. If instead \<^verbatim>\<open>save_project\<close> raises, the same request is still
  answered 200, and the response is the other one with the key \<^verbatim>\<open>project_id\<close> removed:
  designs, count, constraints, rankings and recommendations are the same, and there is
  no \<^verbatim>\<open>project_id\<close>.
\<close>

theorem storage_failure_keeps_response:
  assumes "status (generate_designs (env\<lparr>save_project := \<lambda>c ds m u. Inr pid\<rparr>) constraints) = 200"
  shows "status (generate_designs (env\<lparr>save_project := \<lambda>c ds m u. Inl e\<rparr>) constraints) = 200
    \<and> body (generate_designs (env\<lparr>save_project := \<lambda>c ds m u. Inl e\<rparr>) constraints)
        = AList.delete ''project_id''
            (body (generate_designs (env\<lparr>save_project := \<lambda>c ds m u. Inr pid\<rparr>) constraints))
    \<and> map_of (body (generate_designs (env\<lparr>save_project := \<lambda>c ds m u. Inl e\<rparr>) constraints))
         ''project_id'' = None
    \<and> map_of (body (generate_designs (env\<lparr>save_project := \<lambda>c ds m u. Inr pid\<rparr>) constraints))
         ''project_id'' = Some pid"
proof -
  let ?ok = "env\<lparr>save_project := \<lambda>c ds m u. Inr pid\<rparr>"
  let ?bad = "env\<lparr>save_project := \<lambda>c ds m u. Inl e\<rparr>"
  from generate_designs_200D [OF assms]
  obtain u errs ds t eds where u: "py_get constraints ''user_id'' PNone = Inr u"
    and v: "validate ?ok constraints = Inr (True, errs)"
    and g: "generate ?ok constraints = Inr ds"
    and ev: "evaluate_designs ?ok constraints 0 ds = (t, Inr eds)"
    by blast
  obtain t1 mr where mr: "ml_ranking ?ok (PList (map PDict eds)) constraints = (t1, Inr mr)"
    using ml_ranking_total by blast
  obtain t2 recs where recs: "historical_recommendation ?ok constraints = (t2, Inr recs)"
    using historical_recommendation_total by blast
  have v': "validate ?bad constraints = Inr (True, errs)" using v by simp
  have g': "generate ?bad constraints = Inr ds" using g by simp
  have ev': "evaluate_designs ?bad constraints 0 ds = (t, Inr eds)"
    using ev evaluate_designs_cong [of ?bad ?ok constraints 0 ds] by simp
  have mr': "ml_ranking ?bad (PList (map PDict eds)) constraints = (t1, Inr mr)"
    using mr ml_ranking_cong [of ?bad ?ok] by simp
  have recs': "historical_recommendation ?bad constraints = (t2, Inr recs)"
    using recs historical_recommendation_cong [of ?bad ?ok] by simp
  have br: "build_response ?bad constraints eds mr recs = build_response ?ok constraints eds mr recs"
    by (rule build_response_cong) simp_all
  have ok: "generate_designs ?ok constraints =
      \<lparr>calls = [Validate, Generate] @ t @ t1 @ t2 @ [SaveProject], status = 200,
       body = AList.update ''project_id'' pid (build_response ?ok constraints eds mr recs)\<rparr>"
    using generate_designs_success [OF u v g ev mr recs] by simp
  have bad: "generate_designs ?bad constraints =
      \<lparr>calls = [Validate, Generate] @ t @ t1 @ t2 @ [SaveProject], status = 200,
       body = build_response ?ok constraints eds mr recs\<rparr>"
    using generate_designs_success [OF u v' g' ev' mr' recs'] br by simp
  have del: "AList.delete ''project_id''
               (AList.update ''project_id'' pid (build_response ?ok constraints eds mr recs))
             = build_response ?ok constraints eds mr recs"
    using build_response_no_project_id [of ?ok constraints eds mr recs]
    by (simp add: delete_update_same)
  show ?thesis
    unfolding ok bad
    by (simp add: del update_conv' build_response_fields)
qed

text \<open>The specification's valid request, with a database that raises.\<close>

theorem storage_failure_keeps_response_witness:
  "status (generate_designs (sample_env\<lparr>save_project := \<lambda>c ds m u. Inr (PInt 7)\<rparr>)
      (PDict hot_water_request)) = 200
   \<and> status (generate_designs (sample_env\<lparr>save_project := \<lambda>c ds m u. Inl (Exception ''database is locked'')\<rparr>)
      (PDict hot_water_request)) = 200
   \<and> map_of (body (generate_designs
        (sample_env\<lparr>save_project := \<lambda>c ds m u. Inl (Exception ''database is locked'')\<rparr>)
        (PDict hot_water_request))) ''project_id'' = None"
proof -
  have ok: "status (generate_designs (sample_env\<lparr>save_project := \<lambda>c ds m u. Inr (PInt 7)\<rparr>)
      (PDict hot_water_request)) = 200"
    by (simp add: sample_run)
  show ?thesis
    using ok storage_failure_keeps_response
      [where env = sample_env and pid = "PInt 7" and constraints = "PDict hot_water_request"
         and e = "Exception ''database is locked''", OF ok]
    by blast
qed

section \<open>ML enhancements that fail\<close>

lemma persisted_fields:
  "k \<noteq> ''project_id'' \<Longrightarrow>
   map_of (case r of Inl e \<Rightarrow> R | Inr pid \<Rightarrow> AList.update ''project_id'' pid R) k = map_of R k"
  by (cases r) (simp_all add: update_conv')

lemma evaluated_designs_have_metrics:
  assumes "evaluate_designs env c idx ds = (t, Inr eds)" and "d \<in> set eds"
  shows "map_of d ''metrics'' \<noteq> None"
proof -
  from assms(2) obtain i where i: "i < length eds" "eds ! i = d"
    by (auto simp: in_set_conv_nth)
  have "length eds = length ds" using evaluate_designs_nth [OF assms(1)] by blast
  with i evaluated_design_keys(1) [OF assms(1), of i] show ?thesis by simp
qed

lemma ml_ranking_ranker_raises:
  "ml_rank_designs env ds c = Inl e \<Longrightarrow>
   ml_ranking env ds c = (if ml_models_ready env then ([MLRankDesigns], Inr PNone) else ([], Inr PNone))"
  by (simp add: ml_ranking_def invoke_def io_return_def)

lemma historical_recommendation_raises:
  "recommend_design env c None = Inl e \<Longrightarrow>
   historical_recommendation env c
     = (if ml_models_ready env then ([RecommendDesign], Inr PNone) else ([], Inr PNone))"
  by (simp add: historical_recommendation_def invoke_def io_return_def)

text \<open>
  The generation route when the ranker raises at its call: the request is answered 200
  with the evaluated designs, and the key \<^verbatim>\<open>ml_rankings\<close> is in the response with the
  value null. Likewise for the recommender and \<^verbatim>\<open>recommendations\<close>.
\<close>

lemma generation_ranker_raises:
  assumes "ml_models_ready env"
    and "py_get c ''user_id'' PNone = Inr u" and "validate env c = Inr (True, errs)"
    and "generate env c = Inr ds" and "evaluate_designs env c 0 ds = (t, Inr eds)"
    and "ml_rank_designs env (PList (map PDict eds)) c = Inl ex"
  shows "status (generate_designs env c) = 200
    \<and> map_of (body (generate_designs env c)) ''designs'' = Some (PList (map PDict eds))
    \<and> map_of (body (generate_designs env c)) ''ml_rankings'' = Some PNone"
proof -
  have mr: "ml_ranking env (PList (map PDict eds)) c = ([MLRankDesigns], Inr PNone)"
    using assms(1) ml_ranking_ranker_raises [OF assms(6)] by simp
  obtain t2 recs where rc: "historical_recommendation env c = (t2, Inr recs)"
    using historical_recommendation_total by blast
  show ?thesis
    unfolding generate_designs_success [OF assms(2-5) mr rc]
    using assms(1) by (simp add: persisted_fields build_response_fields)
qed

lemma generation_recommender_raises:
  assumes "ml_models_ready env"
    and "py_get c ''user_id'' PNone = Inr u" and "validate env c = Inr (True, errs)"
    and "generate env c = Inr ds" and "evaluate_designs env c 0 ds = (t, Inr eds)"
    and "recommend_design env c None = Inl ex"
  shows "status (generate_designs env c) = 200
    \<and> map_of (body (generate_designs env c)) ''designs'' = Some (PList (map PDict eds))
    \<and> map_of (body (generate_designs env c)) ''recommendations'' = Some PNone"
proof -
  obtain t1 mr where mr: "ml_ranking env (PList (map PDict eds)) c = (t1, Inr mr)"
    using ml_ranking_total by blast
  have rc: "historical_recommendation env c = ([RecommendDesign], Inr PNone)"
    using assms(1) historical_recommendation_raises [OF assms(6)] by simp
  show ?thesis
    unfolding generate_designs_success [OF assms(2-5) mr rc]
    using assms(1) by (simp add: persisted_fields build_response_fields)
qed

text \<open>The rankings route when the ranker raises at its call: the key is not set.\<close>

lemma get_rankings_success:
  assumes "py_get data ''designs'' (PList []) = Inr ds"
    and "py_get data ''constraints'' (PDict []) = Inr c"
    and "truthy ds" and "rank_designs env ds = Inr rb"
    and "ml_ranking env ds c = (t, Inr mr)" and "py_len ds = Inr n"
  shows "get_rankings env data =
     \<lparr>calls = RankDesigns # t, status = 200,
      body = (if truthy mr
              then AList.update ''ml_rankings'' mr [(''rule_based_rankings'', rb), (''total_designs'', PInt n)]
              else [(''rule_based_rankings'', rb), (''total_designs'', PInt n)])\<rparr>"
  using assms
  by (simp add: get_rankings_def io_lift_def invoke_def io_return_def respond_def)

lemma rankings_ranker_raises:
  assumes "py_get data ''designs'' (PList []) = Inr ds"
    and "py_get data ''constraints'' (PDict []) = Inr c"
    and "truthy ds" and "rank_designs env ds = Inr rb" and "py_len ds = Inr n"
    and "ml_rank_designs env ds c = Inl ex"
  shows "status (get_rankings env data) = 200
    \<and> body (get_rankings env data) = [(''rule_based_rankings'', rb), (''total_designs'', PInt n)]"
proof -
  obtain t where mr: "ml_ranking env ds c = (t, Inr PNone)"
    using ml_ranking_ranker_raises [OF assms(6)] by (cases "ml_models_ready env") simp_all
  show ?thesis
    unfolding get_rankings_success [OF assms(1-4) mr assms(5)] by simp
qed

text \<open>
  Claim C4. The claim holds in the rankings route and fails in the generation route.
  In the sample environment with a ranker and a recommender that raise, the
  specification's valid request is answered 200 with its three designs, and the
  response has the keys \<^verbatim>\<open>ml_rankings\<close> and \<^verbatim>\<open>recommendations\<close>, each with the value null
  (lines 305 to 307 assign both under \<^verbatim>\<open>ml_models_ready\<close> alone). With the same ranker,
  the rankings route (lines 481 and 482, \<^verbatim>\<open>if ml_rankings:\<close>) returns the rule-based
  rankings and no key \<^verbatim>\<open>ml_rankings\<close>.
\<close>

theorem failed_ml_fields_are_null_not_absent:
  "ml_rank_designs failing_ml_env
       (PList (map PDict (DesignGenerator_generate (\<lambda>c i. []) hot_water_request)))
       (PDict hot_water_request) = Inl (Exception ''ranker not fitted'')
   \<and> recommend_design failing_ml_env (PDict hot_water_request) None = Inl (Exception ''no history'')
   \<and> status (generate_designs failing_ml_env (PDict hot_water_request)) = 200
   \<and> map_of (body (generate_designs failing_ml_env (PDict hot_water_request))) ''count''
       = Some (PInt 3)
   \<and> map_of (body (generate_designs failing_ml_env (PDict hot_water_request))) ''ml_rankings''
       = Some PNone
   \<and> map_of (body (generate_designs failing_ml_env (PDict hot_water_request))) ''recommendations''
       = Some PNone
   \<and> status (get_rankings failing_ml_env sample_ranking_request) = 200
   \<and> map_of (body (get_rankings failing_ml_env sample_ranking_request)) ''rule_based_rankings''
       = Some (PList [PDict [(''id'', PInt 0)], PDict [(''id'', PInt 1)]])
   \<and> map_of (body (get_rankings failing_ml_env sample_ranking_request)) ''ml_rankings'' = None"
proof -
  have gen: "status (generate_designs failing_ml_env (PDict hot_water_request)) = 200
     \<and> map_of (body (generate_designs failing_ml_env (PDict hot_water_request))) ''count''
         = Some (PInt 3)
     \<and> map_of (body (generate_designs failing_ml_env (PDict hot_water_request))) ''ml_rankings''
         = Some PNone
     \<and> map_of (body (generate_designs failing_ml_env (PDict hot_water_request))) ''recommendations''
         = Some PNone"
    by (simp add: failing_ml_env_def sample_run)
  have rank: "status (get_rankings failing_ml_env sample_ranking_request) = 200
     \<and> map_of (body (get_rankings failing_ml_env sample_ranking_request)) ''rule_based_rankings''
         = Some (PList [PDict [(''id'', PInt 0)], PDict [(''id'', PInt 1)]])
     \<and> map_of (body (get_rankings failing_ml_env sample_ranking_request)) ''ml_rankings'' = None"
    by (simp add: failing_ml_env_def get_rankings_def sample_ranking_request_def sample_env_def
        py_get_def py_len_def io_lift_def invoke_def io_return_def ml_ranking_def respond_def)
  have calls: "ml_rank_designs failing_ml_env
       (PList (map PDict (DesignGenerator_generate (\<lambda>c i. []) hot_water_request)))
       (PDict hot_water_request) = Inl (Exception ''ranker not fitted'')"
    "recommend_design failing_ml_env (PDict hot_water_request) None = Inl (Exception ''no history'')"
    by (simp_all add: failing_ml_env_def sample_env_def)
  show ?thesis using gen rank calls by simp
qed

section \<open>A missing cost prediction\<close>

text \<open>
  The cost-prediction route when the one call of \<^verbatim>\<open>predict\<close> it makes, with the request's
  own fields or their defaults, returns null.
\<close>

lemma predict_cost_null:
  assumes "ml_models_ready env"
    and "py_get data ''area'' (PInt 1000) = Inr area"
    and "py_get data ''budget'' (PInt 50) = Inr budget"
    and "py_get data ''climate'' (PStr ''moderate'') = Inr climate"
    and "py_get data ''priority'' (PStr ''energy'') = Inr priority"
    and "py_get data ''design_id'' (PInt 0) = Inr design_id"
    and "predict env area budget climate priority design_id = Inr None"
  shows "predict_cost env data =
     \<lparr>calls = [Predict], status = 500, body = [(''error'', PStr ''Prediction failed'')]\<rparr>"
  using assms
  by (simp add: predict_cost_def io_lift_def invoke_def io_return_def respond_def)

text \<open>
  The generation route: the design at index \<open>i\<close> is left without a predicted cost when
  the call of \<^verbatim>\<open>predict\<close> made for it, with the four fields of the request and \<open>i\<close>,
  returns null.
\<close>

lemma generation_with_null_predictions:
  assumes v: "validate env (PDict cd) = Inr (True, errs)"
    and g: "generate env (PDict cd) = Inr ds"
    and ev: "\<forall>d \<in> set ds. \<exists>m. evaluate env (PDict d) (PDict cd) = Inr m"
  shows "status (generate_designs env (PDict cd)) = 200
    \<and> (\<exists>eds. map_of (body (generate_designs env (PDict cd))) ''designs'' = Some (PList (map PDict eds))
          \<and> length eds = length ds
          \<and> (\<forall>i<length ds.
                (\<forall>area budget climate priority.
                    map_of cd ''area'' = Some area \<longrightarrow> map_of cd ''budget'' = Some budget \<longrightarrow>
                    map_of cd ''climate'' = Some climate \<longrightarrow> map_of cd ''priority'' = Some priority \<longrightarrow>
                    predict env area budget climate priority (PInt (int i)) = Inr None) \<longrightarrow>
                (\<exists>m. evaluate env (PDict (ds ! i)) (PDict cd) = Inr m
                     \<and> eds ! i = AList.update ''metrics'' m (ds ! i))
                \<and> map_of (eds ! i) ''ml_predicted_cost'' = map_of (ds ! i) ''ml_predicted_cost''))"
proof -
  let ?c = "PDict cd"
  obtain u where u: "py_get ?c ''user_id'' PNone = Inr u" by (simp add: py_get_def)
  obtain t eds where e: "evaluate_designs env ?c 0 ds = (t, Inr eds)"
    using evaluate_designs_total [of ds env ?c 0] ev by blast
  obtain t1 mr where mr: "ml_ranking env (PList (map PDict eds)) ?c = (t1, Inr mr)"
    using ml_ranking_total by blast
  obtain t2 recs where rc: "historical_recommendation env ?c = (t2, Inr recs)"
    using historical_recommendation_total by blast
  note A = generate_designs_success [OF u v g e mr rc]
  note N = evaluate_designs_nth [OF e]
  have st: "status (generate_designs env ?c) = 200" unfolding A by simp
  have designs: "map_of (body (generate_designs env ?c)) ''designs'' = Some (PList (map PDict eds))"
    unfolding A by (simp add: persisted_fields build_response_fields)
  have len: "length eds = length ds" using N by blast
  have each: "\<forall>i<length ds.
       (\<forall>area budget climate priority.
           map_of cd ''area'' = Some area \<longrightarrow> map_of cd ''budget'' = Some budget \<longrightarrow>
           map_of cd ''climate'' = Some climate \<longrightarrow> map_of cd ''priority'' = Some priority \<longrightarrow>
           predict env area budget climate priority (PInt (int i)) = Inr None) \<longrightarrow>
       (\<exists>m. evaluate env (PDict (ds ! i)) ?c = Inr m
            \<and> eds ! i = AList.update ''metrics'' m (ds ! i))
       \<and> map_of (eds ! i) ''ml_predicted_cost'' = map_of (ds ! i) ''ml_predicted_cost''"
  proof (intro allI impI)
    fix i assume i: "i < length ds"
      and none: "\<forall>area budget climate priority.
           map_of cd ''area'' = Some area \<longrightarrow> map_of cd ''budget'' = Some budget \<longrightarrow>
           map_of cd ''climate'' = Some climate \<longrightarrow> map_of cd ''priority'' = Some priority \<longrightarrow>
           predict env area budget climate priority (PInt (int i)) = Inr None"
    from N i obtain m where m: "evaluate env (PDict (ds ! i)) ?c = Inr m"
      and r: "snd (add_predicted_cost env ?c (0 + i) (AList.update ''metrics'' m (ds ! i))) = Inr (eds ! i)"
      by blast
    have own_call: "\<And>area budget climate priority.
        py_getitem ?c ''area'' = Inr area \<Longrightarrow> py_getitem ?c ''budget'' = Inr budget \<Longrightarrow>
        py_getitem ?c ''climate'' = Inr climate \<Longrightarrow> py_getitem ?c ''priority'' = Inr priority \<Longrightarrow>
        predict env area budget climate priority (PInt (int i)) = Inr None"
      using none by (auto simp: py_getitem_def split: option.splits)
    have "snd (add_predicted_cost env ?c i (AList.update ''metrics'' m (ds ! i)))
          = Inr (AList.update ''metrics'' m (ds ! i))"
      using own_call by (rule add_predicted_cost_null)
    with r have eq: "eds ! i = AList.update ''metrics'' m (ds ! i)" by simp
    then have "map_of (eds ! i) ''ml_predicted_cost'' = map_of (ds ! i) ''ml_predicted_cost''"
      by (simp add: update_conv')
    with m eq show "(\<exists>m. evaluate env (PDict (ds ! i)) ?c = Inr m
            \<and> eds ! i = AList.update ''metrics'' m (ds ! i))
       \<and> map_of (eds ! i) ''ml_predicted_cost'' = map_of (ds ! i) ''ml_predicted_cost''"
      by blast
  qed
  show ?thesis using st designs len each by blast
qed

text \<open>
  Claim C3 as stated covers the cost-prediction route. There a null prediction is
  answered with status 500 and \<^verbatim>\<open>{'error': 'Prediction failed'}\<close>: the request fails.
\<close>

theorem null_prediction_fails_cost_endpoint:
  "predict (sample_env\<lparr>predict := \<lambda>area budget climate priority idx. Inr None\<rparr>)
      (PInt 1200) (PInt 60) (PStr ''hot'') (PStr ''water'') (PInt 0) = Inr None
   \<and> predict_cost (sample_env\<lparr>predict := \<lambda>area budget climate priority idx. Inr None\<rparr>)
       (PDict ((''design_id'', PInt 0) # hot_water_request))
     = \<lparr>calls = [Predict], status = 500, body = [(''error'', PStr ''Prediction failed'')]\<rparr>"
  by (simp add: predict_cost_def sample_env_def hot_water_request_def py_get_def io_lift_def
      invoke_def io_return_def respond_def)

text \<open>
  Claim C3, amended. Generation route: if validation passes, the generator returns and
  the evaluator returns for each design, the request is answered 200 with as many
  designs as were generated; if the call of \<^verbatim>\<open>predict\<close> made for the design at index \<open>i\<close>
  (with the request's own area, budget, climate and priority, and \<open>i\<close>) returns null,
  that design is the generated design with only \<^verbatim>\<open>metrics\<close> set, so no
  \<^verbatim>\<open>ml_predicted_cost\<close> is added. Cost-prediction route: with \<^verbatim>\<open>ml_models_ready\<close> set, for
  any request body with a \<^verbatim>\<open>get\<close> method, if the one call of \<^verbatim>\<open>predict\<close> (with the request's
  fields or their defaults) returns null, the answer is status 500 with the error
  "Prediction failed".
\<close>

theorem null_prediction_handling:
  "(validate env (PDict cd) = Inr (True, errs) \<longrightarrow> generate env (PDict cd) = Inr ds \<longrightarrow>
    (\<forall>d \<in> set ds. \<exists>m. evaluate env (PDict d) (PDict cd) = Inr m) \<longrightarrow>
      status (generate_designs env (PDict cd)) = 200
      \<and> (\<exists>eds. map_of (body (generate_designs env (PDict cd))) ''designs'' = Some (PList (map PDict eds))
            \<and> length eds = length ds
            \<and> (\<forall>i<length ds.
                  (\<forall>area budget climate priority.
                      map_of cd ''area'' = Some area \<longrightarrow> map_of cd ''budget'' = Some budget \<longrightarrow>
                      map_of cd ''climate'' = Some climate \<longrightarrow> map_of cd ''priority'' = Some priority \<longrightarrow>
                      predict env area budget climate priority (PInt (int i)) = Inr None) \<longrightarrow>
                  (\<exists>m. evaluate env (PDict (ds ! i)) (PDict cd) = Inr m
                       \<and> eds ! i = AList.update ''metrics'' m (ds ! i))
                  \<and> map_of (eds ! i) ''ml_predicted_cost'' = map_of (ds ! i) ''ml_predicted_cost'')))
   \<and> (ml_models_ready env \<longrightarrow>
       py_get data ''area'' (PInt 1000) = Inr area \<longrightarrow>
       py_get data ''budget'' (PInt 50) = Inr budget \<longrightarrow>
       py_get data ''climate'' (PStr ''moderate'') = Inr climate \<longrightarrow>
       py_get data ''priority'' (PStr ''energy'') = Inr priority \<longrightarrow>
       py_get data ''design_id'' (PInt 0) = Inr design_id \<longrightarrow>
       predict env area budget climate priority design_id = Inr None \<longrightarrow>
       predict_cost env data
         = \<lparr>calls = [Predict], status = 500, body = [(''error'', PStr ''Prediction failed'')]\<rparr>)"
  using generation_with_null_predictions [of env cd errs ds]
    predict_cost_null [of env data area budget climate priority design_id]
  by blast

text \<open>
  A predictor whose answer depends on its arguments: in the generation route only the
  design with index 1 is left without a predicted cost; in the cost-prediction route a
  climate outside the three categories is answered 500, while the same environment
  answers the default request 200.
\<close>

theorem null_prediction_handling_witness:
  "status (generate_designs selective_env (PDict hot_water_request)) = 200
   \<and> (\<exists>eds. map_of (body (generate_designs selective_env (PDict hot_water_request))) ''designs''
               = Some (PList (map PDict eds))
            \<and> map (\<lambda>d. map_of d ''ml_predicted_cost'') eds
               = [Some (PFloat 1000), None, Some (PFloat 1000)])
   \<and> predict_cost selective_env (PDict [(''climate'', PStr ''tropical'')])
     = \<lparr>calls = [Predict], status = 500, body = [(''error'', PStr ''Prediction failed'')]\<rparr>
   \<and> status (predict_cost selective_env (PDict [])) = 200"
proof -
  let ?ds = "DesignGenerator_generate (\<lambda>c i. []) hot_water_request"
  have v: "validate selective_env (PDict hot_water_request) = Inr (True, [])"
    by (simp add: selective_env_def sample_env_def on_object_def ConstraintEngine_validate_def
        bad_fields_unfold hot_water_request_def area_ok_def budget_ok_def climate_ok_def
        priority_ok_def)
  have g: "generate selective_env (PDict hot_water_request) = Inr ?ds"
    by (simp add: selective_env_def sample_env_def on_object_def)
  have ev: "\<forall>d \<in> set ?ds. \<exists>m. evaluate selective_env (PDict d) (PDict hot_water_request) = Inr m"
    by (simp add: selective_env_def sample_env_def)
  have ready: "ml_models_ready selective_env"
    by (simp add: selective_env_def sample_env_def)
  have args: "py_get (PDict [(''climate'', PStr ''tropical'')]) ''area'' (PInt 1000) = Inr (PInt 1000)"
    "py_get (PDict [(''climate'', PStr ''tropical'')]) ''budget'' (PInt 50) = Inr (PInt 50)"
    "py_get (PDict [(''climate'', PStr ''tropical'')]) ''climate'' (PStr ''moderate'') = Inr (PStr ''tropical'')"
    "py_get (PDict [(''climate'', PStr ''tropical'')]) ''priority'' (PStr ''energy'') = Inr (PStr ''energy'')"
    "py_get (PDict [(''climate'', PStr ''tropical'')]) ''design_id'' (PInt 0) = Inr (PInt 0)"
    by (simp_all add: py_get_def)
  have null: "predict selective_env (PInt 1000) (PInt 50) (PStr ''tropical'') (PStr ''energy'') (PInt 0)
              = Inr None"
    by (simp add: selective_env_def)
  have designs: "\<exists>eds. map_of (body (generate_designs selective_env (PDict hot_water_request))) ''designs''
               = Some (PList (map PDict eds))
            \<and> map (\<lambda>d. map_of d ''ml_predicted_cost'') eds
               = [Some (PFloat 1000), None, Some (PFloat 1000)]"
    by (rule exI [of _ "map (\<lambda>i. if i = 1
          then AList.update ''metrics'' (SustainabilityEvaluator_evaluate (\<lambda>d c. (1, 1, 1)) PNone PNone)
                 (?ds ! i)
          else AList.update ''ml_predicted_cost'' (PFloat 1000)
                 (AList.update ''metrics'' (SustainabilityEvaluator_evaluate (\<lambda>d c. (1, 1, 1)) PNone PNone)
                    (?ds ! i))) [0, 1, 2]"])
       (simp add: selective_env_def sample_run)
  have ok: "status (predict_cost selective_env (PDict [])) = 200"
    by (simp add: selective_env_def sample_env_def predict_cost_def py_get_def io_lift_def
        invoke_def io_return_def respond_def)
  show ?thesis
    using v g ev ready args null designs ok
      null_prediction_handling
        [where env = selective_env and cd = hot_water_request and errs = "[]" and ds = ?ds
           and data = "PDict [(''climate'', PStr ''tropical'')]" and area = "PInt 1000"
           and budget = "PInt 50" and climate = "PStr ''tropical''" and priority = "PStr ''energy''"
           and design_id = "PInt 0"]
    by blast
qed

section \<open>The generation pipeline on valid constraints\<close>

lemma generated_designs:
  "length (DesignGenerator_generate attributes c) = 3"
  "i < 3 \<Longrightarrow> map_of (DesignGenerator_generate attributes c ! i) ''id'' = Some (PInt (int i))"
  "map (\<lambda>d. map_of d ''id'') (DesignGenerator_generate attributes c)
     = [Some (PInt 0), Some (PInt 1), Some (PInt 2)]"
proof -
  show "length (DesignGenerator_generate attributes c) = 3"
    by (simp add: DesignGenerator_generate_def)
  show "map (\<lambda>d. map_of d ''id'') (DesignGenerator_generate attributes c)
     = [Some (PInt 0), Some (PInt 1), Some (PInt 2)]"
    by (simp add: DesignGenerator_generate_def update_conv')
  assume "i < 3"
  then have "i = 0 \<or> i = 1 \<or> i = 2" by arith
  then show "map_of (DesignGenerator_generate attributes c ! i) ''id'' = Some (PInt (int i))"
    by (auto simp: DesignGenerator_generate_def update_conv')
qed

text \<open>
  Claim C1. With the constraint engine, the generator and the evaluator as the
  specification describes them, and whatever the ML collaborators and the persistence
  do, a constraints object that passes validation is answered 200 with exactly three
  designs, whose ids are 0, 1, 2 in this order, each carrying as \<^verbatim>\<open>metrics\<close> the value
  \<^verbatim>\<open>SustainabilityEvaluator.evaluate\<close> returned for it (never null), and \<^verbatim>\<open>count\<close> is the
  number of designs in the response.
\<close>

theorem generation_returns_three_evaluated_designs:
  assumes "fst (ConstraintEngine_validate c)"
  shows "\<exists>eds.
      status (generate_designs (with_specified_core env other other' attributes formulas) (PDict c)) = 200
    \<and> map_of (body (generate_designs (with_specified_core env other other' attributes formulas) (PDict c)))
         ''designs'' = Some (PList (map PDict eds))
    \<and> map_of (body (generate_designs (with_specified_core env other other' attributes formulas) (PDict c)))
         ''count'' = Some (PInt (int (length eds)))
    \<and> length eds = 3
    \<and> map (\<lambda>d. map_of d ''id'') eds = [Some (PInt 0), Some (PInt 1), Some (PInt 2)]
    \<and> map (\<lambda>d. map_of d ''metrics'') eds
        = map (\<lambda>d. Some (SustainabilityEvaluator_evaluate formulas (PDict d) (PDict c)))
            (DesignGenerator_generate attributes c)
    \<and> (\<forall>d \<in> set eds. map_of d ''metrics'' \<noteq> None \<and> map_of d ''metrics'' \<noteq> Some PNone)"
proof -
  let ?env = "with_specified_core env other other' attributes formulas"
  let ?c = "PDict c"
  let ?ds = "DesignGenerator_generate attributes c"
  let ?m = "\<lambda>d. SustainabilityEvaluator_evaluate formulas (PDict d) ?c"
  obtain u where u: "py_get ?c ''user_id'' PNone = Inr u" by (simp add: py_get_def)
  have v: "validate ?env ?c = Inr (True, snd (ConstraintEngine_validate c))"
    using assms by (cases "ConstraintEngine_validate c") (simp add: with_specified_core_def on_object_def)
  have g: "generate ?env ?c = Inr ?ds"
    by (simp add: with_specified_core_def on_object_def)
  have evd: "\<And>d. evaluate ?env (PDict d) ?c = Inr (?m d)"
    by (simp add: with_specified_core_def)
  obtain t eds where e: "evaluate_designs ?env ?c 0 ?ds = (t, Inr eds)"
    using evaluate_designs_total [of ?ds ?env ?c 0] evd by blast
  obtain t1 mr where mr: "ml_ranking ?env (PList (map PDict eds)) ?c = (t1, Inr mr)"
    using ml_ranking_total by blast
  obtain t2 recs where rc: "historical_recommendation ?env ?c = (t2, Inr recs)"
    using historical_recommendation_total by blast
  note A = generate_designs_success [OF u v g e mr rc]
  have len: "length eds = 3"
    using evaluate_designs_nth [OF e] generated_designs(1) [of attributes c] by simp
  have ids: "map (\<lambda>d. map_of d ''id'') eds = map (\<lambda>d. map_of d ''id'') ?ds"
  proof (rule nth_equalityI)
    show "length (map (\<lambda>d. map_of d ''id'') eds) = length (map (\<lambda>d. map_of d ''id'') ?ds)"
      using len generated_designs(1) [of attributes c] by simp
  next
    fix i assume "i < length (map (\<lambda>d. map_of d ''id'') eds)"
    then have i: "i < length ?ds" using len generated_designs(1) [of attributes c] by simp
    then have "map_of (eds ! i) ''id'' = map_of (?ds ! i) ''id''"
      using evaluated_design_keys(2) [OF e i, of "''id''"] by simp
    with i len generated_designs(1) [of attributes c]
    show "map (\<lambda>d. map_of d ''id'') eds ! i = map (\<lambda>d. map_of d ''id'') ?ds ! i"
      by simp
  qed
  have mets: "map (\<lambda>d. map_of d ''metrics'') eds = map (\<lambda>d. Some (?m d)) ?ds"
  proof (rule nth_equalityI)
    show "length (map (\<lambda>d. map_of d ''metrics'') eds) = length (map (\<lambda>d. Some (?m d)) ?ds)"
      using len generated_designs(1) [of attributes c] by simp
  next
    fix i assume "i < length (map (\<lambda>d. map_of d ''metrics'') eds)"
    then have i: "i < length ?ds" using len generated_designs(1) [of attributes c] by simp
    have "map_of (eds ! i) ''metrics'' = Some (?m (?ds ! i))"
      using evaluated_design_keys(3) [OF e i, of "?m (?ds ! i)"] evd by simp
    with i len generated_designs(1) [of attributes c]
    show "map (\<lambda>d. map_of d ''metrics'') eds ! i = map (\<lambda>d. Some (?m d)) ?ds ! i"
      by simp
  qed
  have nonnull: "\<forall>d \<in> set eds. map_of d ''metrics'' \<noteq> None \<and> map_of d ''metrics'' \<noteq> Some PNone"
  proof
    fix d assume "d \<in> set eds"
    then obtain i where i: "i < length eds" "eds ! i = d" by (auto simp: in_set_conv_nth)
    then have i': "i < length ?ds" using len generated_designs(1) [of attributes c] by simp
    have "map_of (eds ! i) ''metrics'' = Some (?m (?ds ! i))"
      using evaluated_design_keys(3) [OF e i', of "?m (?ds ! i)"] evd by simp
    with i show "map_of d ''metrics'' \<noteq> None \<and> map_of d ''metrics'' \<noteq> Some PNone"
      by (simp add: SustainabilityEvaluator_evaluate_def split: prod.splits)
  qed
  have st: "status (generate_designs ?env ?c) = 200" unfolding A by simp
  have designs: "map_of (body (generate_designs ?env ?c)) ''designs'' = Some (PList (map PDict eds))"
    unfolding A by (simp add: persisted_fields build_response_fields)
  have count: "map_of (body (generate_designs ?env ?c)) ''count'' = Some (PInt (int (length eds)))"
    unfolding A by (simp add: persisted_fields build_response_fields)
  show ?thesis
    using st designs count len ids generated_designs(3) [of attributes c] mets nonnull
    by (intro exI [of _ eds]) simp
qed

text \<open>The specification's valid request in the sample environment.\<close>

theorem generation_returns_three_evaluated_designs_witness:
  "fst (ConstraintEngine_validate hot_water_request)
   \<and> status (generate_designs sample_env (PDict hot_water_request)) = 200
   \<and> map_of (body (generate_designs sample_env (PDict hot_water_request))) ''count'' = Some (PInt 3)"
proof -
  have v: "fst (ConstraintEngine_validate hot_water_request)"
    by (simp add: ConstraintEngine_validate_def bad_fields_unfold hot_water_request_def
        area_ok_def budget_ok_def climate_ok_def priority_ok_def)
  have env: "with_specified_core sample_env (\<lambda>v. Inl (Exception ''not an object''))
               (\<lambda>v. Inl (Exception ''not an object'')) (\<lambda>c i. []) (\<lambda>d c. (1, 1, 1)) = sample_env"
    by (simp add: with_specified_core_def sample_env_def)
  show ?thesis
    using v generation_returns_three_evaluated_designs
         [where c = hot_water_request and env = sample_env
            and other = "\<lambda>v. Inl (Exception ''not an object'')"
            and other' = "\<lambda>v. Inl (Exception ''not an object'')"
            and attributes = "\<lambda>c i. []" and formulas = "\<lambda>d c. (1, 1, 1)", OF v]
    unfolding env by auto
qed

section \<open>The recommendation route\<close>

lemma design_names_at:
  "py_list_index design_names (PInt 0) = Inr ''Eco-Efficient''"
  "py_list_index design_names (PInt 1) = Inr ''Carbon-Optimized''"
  "py_list_index design_names (PInt 2) = Inr ''Regenerative''"
  by (simp_all add: py_list_index_def py_list_at_def design_names_def)

text \<open>
  Claim C8. With \<^verbatim>\<open>ml_models_ready\<close> set, if the recommender returns a dictionary whose
  \<^verbatim>\<open>recommended_design\<close> is null or one of 0, 1, 2 and whose \<^verbatim>\<open>confidence\<close> is a number, the
  recommendation route answers 200 with \<^verbatim>\<open>recommended_design_id\<close> the id as returned,
  \<^verbatim>\<open>confidence\<close> the rounded confidence, and \<^verbatim>\<open>recommended_design\<close> the name of the id under
  0: Eco-Efficient, 1: Carbon-Optimized, 2: Regenerative. For a null id both the name
  and the id are null, and the answer is still 200.
\<close>

theorem recommendation_response:
  assumes "ml_models_ready env"
    and "recommend_design env constraints (Some 3) = Inr (PDict r)"
    and "map_of r ''recommended_design'' = Some rid"
    and "rid = PNone \<or> rid = PInt 0 \<or> rid = PInt 1 \<or> rid = PInt 2"
    and "map_of r ''confidence'' = Some confidence"
    and "(\<exists>x. confidence = PFloat x) \<or> (\<exists>n. confidence = PInt n)"
  shows "get_recommendations env constraints =
     \<lparr>calls = [RecommendDesign], status = 200,
      body = [(''recommended_design'',
                 if rid = PInt 0 then PStr ''Eco-Efficient''
                 else if rid = PInt 1 then PStr ''Carbon-Optimized''
                 else if rid = PInt 2 then PStr ''Regenerative''
                 else PNone),
              (''recommended_design_id'', rid),
              (''confidence'',
                 case confidence of PFloat x \<Rightarrow> PFloat (round_float env x 3) | _ \<Rightarrow> confidence),
              (''model'', PStr ''HistoricalSimilarity'')]\<rparr>"
  using assms
  by (auto simp: get_recommendations_def py_getitem_def py_round_def io_lift_def invoke_def
      io_return_def respond_def design_names_at)

text \<open>An id of 0 and a null id, in the sample environment.\<close>

theorem recommendation_response_witness:
  "get_recommendations sample_env (PDict hot_water_request) =
     \<lparr>calls = [RecommendDesign], status = 200,
      body = [(''recommended_design'', PStr ''Eco-Efficient''),
              (''recommended_design_id'', PInt 0),
              (''confidence'', PFloat 1),
              (''model'', PStr ''HistoricalSimilarity'')]\<rparr>
   \<and> get_recommendations
       (sample_env\<lparr>recommend_design := \<lambda>c n. Inr (PDict [(''recommended_design'', PNone),
                                                            (''confidence'', PFloat 0)])\<rparr>)
       (PDict hot_water_request) =
     \<lparr>calls = [RecommendDesign], status = 200,
      body = [(''recommended_design'', PNone),
              (''recommended_design_id'', PNone),
              (''confidence'', PFloat 0),
              (''model'', PStr ''HistoricalSimilarity'')]\<rparr>"
proof -
  let ?null = "sample_env\<lparr>recommend_design := \<lambda>c n. Inr (PDict [(''recommended_design'', PNone),
                                                            (''confidence'', PFloat 0)])\<rparr>"
  have a: "ml_models_ready sample_env" "round_float sample_env = (\<lambda>x n. x)"
    "recommend_design sample_env (PDict hot_water_request) (Some 3)
       = Inr (PDict [(''recommended_design'', PInt 0), (''confidence'', PFloat 1)])"
    by (simp_all add: sample_env_def)
  have b: "ml_models_ready ?null" "round_float ?null = (\<lambda>x n. x)"
    "recommend_design ?null (PDict hot_water_request) (Some 3)
       = Inr (PDict [(''recommended_design'', PNone), (''confidence'', PFloat 0)])"
    by (simp_all add: sample_env_def)
  show ?thesis
    using recommendation_response
            [where env = sample_env and constraints = "PDict hot_water_request"
               and r = "[(''recommended_design'', PInt 0), (''confidence'', PFloat 1)]"
               and rid = "PInt 0" and confidence = "PFloat 1", OF a(1) a(3)]
          recommendation_response
            [where env = ?null and constraints = "PDict hot_water_request"
               and r = "[(''recommended_design'', PNone), (''confidence'', PFloat 0)]"
               and rid = PNone and confidence = "PFloat 0", OF b(1) b(3)]
          a(2) b(2)
    by simp
qed

end
